theory Spec2Isabelle
  imports Complex_Main
begin

section \<open>JavaScript values\<close>

text \<open>
  The values \<^verbatim>\<open>server.js\<close> handles: what \<^verbatim>\<open>express.json()\<close> and axios parse from
  JSON text (null, booleans, numbers, strings, arrays, objects), \<^verbatim>\<open>undefined\<close> for a
  property that is not there, and the built-in functions and the object
  \<^verbatim>\<open>Object.prototype\<close> that a property read on an object literal can reach through the
  prototype chain. A number is the rational it denotes (JSON has no NaN; the rounding of
  doubles plays no part below: the program only tests numbers for truth and passes them
  on). A string is its list of characters. An object is the list of its own properties
  in insertion order, each key once.
\<close>

datatype jsval =
    JUndefined
  | JNull
  | JBool bool
  | JNum rat
  | JStr string
  | JArr "jsval list"
  | JObj "(string \<times> jsval) list"
  | JFunction string
  | JObjectPrototype

text \<open>
  ToBoolean: \<^verbatim>\<open>undefined\<close>, \<^verbatim>\<open>null\<close>, \<^verbatim>\<open>false\<close>, \<^verbatim>\<open>0\<close> and the
  empty string are falsy, everything else is truthy (arrays and objects too, also empty
  ones).
\<close>

fun truthy :: "jsval \<Rightarrow> bool" where
  "truthy JUndefined = False"
| "truthy JNull = False"
| "truthy (JBool b) = b"
| "truthy (JNum q) = (q \<noteq> 0)"
| "truthy (JStr s) = (s \<noteq> [])"
| "truthy (JArr xs) = True"
| "truthy (JObj kvs) = True"
| "truthy (JFunction f) = True"
| "truthy JObjectPrototype = True"

text \<open>The operator \<^verbatim>\<open>a || b\<close>: \<^verbatim>\<open>a\<close> when it is truthy, else \<^verbatim>\<open>b\<close>.\<close>

definition or_js :: "jsval \<Rightarrow> jsval \<Rightarrow> jsval" where
  "or_js a b = (if truthy a then a else b)"

subsection \<open>Thrown errors and upstream responses\<close>

text \<open>
  What the upstream body stream of a streaming call does, one event after the other:
  a chunk of bytes arrives, the stream ends, or the stream fails.
\<close>

datatype stream_event = Data string | End | Error string

text \<open>
  \<^verbatim>\<open>response.data\<close> of axios: the parsed body under \<^verbatim>\<open>responseType: 'json'\<close>, the
  body stream (here: the events it will emit) under \<^verbatim>\<open>responseType: 'stream'\<close>.
\<close>

datatype response_data = Parsed jsval | Stream "stream_event list"

record upstream_response =
  status :: nat
  data :: response_data

text \<open>
  A thrown value, as the \<^verbatim>\<open>catch\<close> block reads it: \<^verbatim>\<open>error.message\<close> and
  \<^verbatim>\<open>error.response\<close>. A TypeError of the runtime has no \<^verbatim>\<open>response\<close>; an axios
  rejection has one when the upstream answered (with a status outside 2xx) and none on a
  network failure or a timeout.
\<close>

datatype thrown = Thrown (error_message: jsval) (error_response: "upstream_response option")

definition TypeError :: "string \<Rightarrow> thrown" where
  "TypeError msg = Thrown (JStr msg) None"

subsection \<open>Property reads\<close>

definition quoted :: "string \<Rightarrow> string" where
  "quoted n = [CHR 0x27] @ n @ [CHR 0x27]"

text \<open>
  \<^verbatim>\<open>v.n\<close> for the property names the program reads from request and response data
  (\<^verbatim>\<open>model\<close>, \<^verbatim>\<open>messages\<close>, \<^verbatim>\<open>temperature\<close>, \<^verbatim>\<open>max_tokens\<close>, \<^verbatim>\<open>stream\<close>,
  \<^verbatim>\<open>choices\<close>, \<^verbatim>\<open>usage\<close>, \<^verbatim>\<open>index\<close>, \<^verbatim>\<open>message\<close>, \<^verbatim>\<open>role\<close>,
  \<^verbatim>\<open>content\<close>, \<^verbatim>\<open>finish_reason\<close>, \<^verbatim>\<open>error\<close>, \<^verbatim>\<open>on\<close>) and the ones of the
  objects it builds (\<^verbatim>\<open>id\<close>, \<^verbatim>\<open>type\<close>, \<^verbatim>\<open>code\<close>): none of them is a property of
  a built-in prototype, so the read finds an own property of an object or nothing. Reading
  from \<^verbatim>\<open>undefined\<close> or \<^verbatim>\<open>null\<close> throws a TypeError (the message in V8's wording).
\<close>

fun get_member :: "jsval \<Rightarrow> string \<Rightarrow> thrown + jsval" where
  "get_member JUndefined n =
     Inl (TypeError (''Cannot read properties of undefined (reading '' @ quoted n @ '')''))"
| "get_member JNull n =
     Inl (TypeError (''Cannot read properties of null (reading '' @ quoted n @ '')''))"
| "get_member (JObj kvs) n = Inr (case map_of kvs n of Some v \<Rightarrow> v | None \<Rightarrow> JUndefined)"
| "get_member v n = Inr JUndefined"

text \<open>Optional chaining \<^verbatim>\<open>v?.n\<close>: \<^verbatim>\<open>undefined\<close> where \<^verbatim>\<open>v.n\<close> would throw.\<close>

definition opt_member :: "jsval \<Rightarrow> string \<Rightarrow> jsval" where
  "opt_member v n = (case get_member v n of Inl e \<Rightarrow> JUndefined | Inr x \<Rightarrow> x)"

subsection \<open>ToString and property keys\<close>

text \<open>
  ToString, which turns the operand of \<^verbatim>\<open>MODEL_MAPPING[model]\<close> into a property key.
  \<^verbatim>\<open>nts\<close> is Number::toString of the engine, a parameter. An array is joined with
  commas, \<^verbatim>\<open>null\<close> and \<^verbatim>\<open>undefined\<close> elements as empty strings. An object parsed from
  JSON has no callable property of its own: with an own \<^verbatim>\<open>toString\<close> the conversion
  finds nothing to call that returns a primitive and throws, without one
  \<^verbatim>\<open>Object.prototype.toString\<close> answers.
\<close>

fun ToString :: "(rat \<Rightarrow> string) \<Rightarrow> jsval \<Rightarrow> thrown + string"
  and join :: "(rat \<Rightarrow> string) \<Rightarrow> jsval list \<Rightarrow> thrown + string" where
  "ToString nts JUndefined = Inr ''undefined''"
| "ToString nts JNull = Inr ''null''"
| "ToString nts (JBool b) = Inr (if b then ''true'' else ''false'')"
| "ToString nts (JNum q) = Inr (nts q)"
| "ToString nts (JStr s) = Inr s"
| "ToString nts (JArr xs) = join nts xs"
| "ToString nts (JObj kvs) =
     (if map_of kvs ''toString'' = None then Inr ''[object Object]''
      else Inl (TypeError ''Cannot convert object to primitive value''))"
| "ToString nts (JFunction f) = Inr (''function '' @ f @ ''() { [native code] }'')"
| "ToString nts JObjectPrototype = Inr ''[object Object]''"
| "join nts [] = Inr []"
| "join nts (x # xs) =
     (case (if x = JUndefined \<or> x = JNull then Inr [] else ToString nts x) of
        Inl e \<Rightarrow> Inl e
      | Inr s \<Rightarrow>
          (if xs = [] then Inr s
           else case join nts xs of Inl e \<Rightarrow> Inl e | Inr t \<Rightarrow> Inr (s @ '','' @ t)))"

section \<open>Configuration\<close>

text \<open>
  \<^verbatim>\<open>NIM_API_BASE\<close> (the environment's value or the default URL) and
  \<^verbatim>\<open>NIM_API_KEY\<close> (the environment's value: a string, or not set), read once at
  startup.
\<close>

record config =
  NIM_API_BASE :: string
  NIM_API_KEY :: "string option"

text \<open>\<^verbatim>\<open>process.env.NIM_API_KEY\<close> as a value: \<^verbatim>\<open>undefined\<close> when not set.\<close>

definition env_value :: "string option \<Rightarrow> jsval" where
  "env_value v = (case v of None \<Rightarrow> JUndefined | Some s \<Rightarrow> JStr s)"

section \<open>Model mapping\<close>

text \<open>
  The object literal \<^verbatim>\<open>MODEL_MAPPING\<close>. As written it has no comma after the
  \<^verbatim>\<open>'gemini-pro'\<close> entry and is not valid JavaScript: Node refuses the file, and no
  table is initialised. The definition is the literal with that comma restored, its nine
  entries in the order written, so that the handlers, whose text is well-formed, can be
  followed; nothing below states that the program initialises the table.
\<close>

definition MODEL_MAPPING :: "(string \<times> jsval) list" where
  "MODEL_MAPPING =
    [(''gpt-3.5-turbo'', JStr ''meta/llama-3.1-8b-instruct''),
     (''gpt-4'', JStr ''meta/llama-3.1-70b-instruct''),
     (''gpt-4-turbo'', JStr ''meta/llama-3.1-405b-instruct''),
     (''gpt-4o'', JStr ''meta/llama-3.1-405b-instruct''),
     (''claude-3-opus'', JStr ''meta/llama-3.1-405b-instruct''),
     (''claude-3-sonnet'', JStr ''meta/llama-3.1-70b-instruct''),
     (''gemini-pro'', JStr ''meta/llama-3.1-70b-instruct''),
     (''deepseek-v3.2'', JStr ''deepseek-ai/deepseek-v3.1''),
     (''deepseek-r1-0528'', JStr ''deepseek-ai/deepseek-r1-0528'')]"

text \<open>
  The properties an object literal inherits from \<^verbatim>\<open>Object.prototype\<close>: eleven built-in
  functions and the accessor \<^verbatim>\<open>__proto__\<close>, which yields \<^verbatim>\<open>Object.prototype\<close> itself.
\<close>

definition Object_prototype :: "(string \<times> jsval) list" where
  "Object_prototype =
    [(''constructor'', JFunction ''Object''),
     (''__defineGetter__'', JFunction ''__defineGetter__''),
     (''__defineSetter__'', JFunction ''__defineSetter__''),
     (''hasOwnProperty'', JFunction ''hasOwnProperty''),
     (''__lookupGetter__'', JFunction ''__lookupGetter__''),
     (''__lookupSetter__'', JFunction ''__lookupSetter__''),
     (''isPrototypeOf'', JFunction ''isPrototypeOf''),
     (''propertyIsEnumerable'', JFunction ''propertyIsEnumerable''),
     (''toString'', JFunction ''toString''),
     (''valueOf'', JFunction ''valueOf''),
     (''__proto__'', JObjectPrototype),
     (''toLocaleString'', JFunction ''toLocaleString'')]"

text \<open>
  \<^verbatim>\<open>MODEL_MAPPING[key]\<close>: the own property, else the inherited one, else
  \<^verbatim>\<open>undefined\<close>.
\<close>

definition MODEL_MAPPING_get :: "string \<Rightarrow> jsval" where
  "MODEL_MAPPING_get key =
     (case map_of MODEL_MAPPING key of
        Some v \<Rightarrow> v
      | None \<Rightarrow> (case map_of Object_prototype key of Some v \<Rightarrow> v | None \<Rightarrow> JUndefined))"

text \<open>
  \<^verbatim>\<open>const nimModel = MODEL_MAPPING[model] || MODEL_MAPPING['gpt-3.5-turbo']\<close>
\<close>

definition nimModel :: "(rat \<Rightarrow> string) \<Rightarrow> jsval \<Rightarrow> thrown + jsval" where
  "nimModel nts model =
     (case ToString nts model of
        Inl e \<Rightarrow> Inl e
      | Inr key \<Rightarrow> Inr (or_js (MODEL_MAPPING_get key) (MODEL_MAPPING_get ''gpt-3.5-turbo'')))"

section \<open>The upstream request\<close>

text \<open>
  \<^verbatim>\<open>
  const nimRequest = {
    model: nimModel,
    messages: messages,
    temperature: temperature || 0.7,
    max_tokens: max_tokens || 2048,
    stream: stream || false
  };
  \<close>
\<close>

definition nimRequest :: "jsval \<Rightarrow> jsval \<Rightarrow> jsval \<Rightarrow> jsval \<Rightarrow> jsval \<Rightarrow> jsval" where
  "nimRequest nim_model messages temperature max_tokens stream =
     JObj [(''model'', nim_model),
           (''messages'', messages),
           (''temperature'', or_js temperature (JNum (7 / 10))),
           (''max_tokens'', or_js max_tokens (JNum 2048)),
           (''stream'', or_js stream (JBool False))]"

section \<open>The clock\<close>

text \<open>
  \<^verbatim>\<open>Date.now()\<close> is a whole number of milliseconds. Inside a template literal it is
  written in decimal, with a minus sign before the epoch (its size stays far below
  \<open>10\<^sup>2\<^sup>1\<close>, where JavaScript would switch to exponent notation). A handler
  gets the clock as the function from the number of readings taken before to the reading.
\<close>

definition digit_char :: "nat \<Rightarrow> char" where
  "digit_char d = ''0123456789'' ! d"

fun digits :: "nat \<Rightarrow> string" where
  "digits n = (if n < 10 then [digit_char n] else digits (n div 10) @ [digit_char (n mod 10)])"

definition integer_string :: "int \<Rightarrow> string" where
  "integer_string i = (if i < 0 then CHR ''-'' # digits (nat (- i)) else digits (nat i))"

section \<open>The response object of Express\<close>

text \<open>
  \<^verbatim>\<open>res\<close>, as far as the handlers use it: the status code (200 until
  \<^verbatim>\<open>res.status\<close> changes it), the headers the handler sets itself, the value given to
  \<^verbatim>\<open>res.json\<close>, the chunks written with \<^verbatim>\<open>res.write\<close> in their order, and whether
  the response has ended. \<^verbatim>\<open>res.json\<close> sends its argument and ends the response. A
  chunk written after the end is not sent.
\<close>

record res =
  statusCode :: nat
  headers :: "(string \<times> string) list"
  body_json :: "jsval option"
  written :: "string list"
  ended :: bool

definition new_res :: res where
  "new_res = \<lparr>statusCode = 200, headers = [], body_json = None, written = [], ended = False\<rparr>"

definition res_status :: "nat \<Rightarrow> res \<Rightarrow> res" where
  "res_status code r = r\<lparr>statusCode := code\<rparr>"

definition res_json :: "jsval \<Rightarrow> res \<Rightarrow> res" where
  "res_json v r = r\<lparr>body_json := Some v, ended := True\<rparr>"

definition res_setHeader :: "string \<Rightarrow> string \<Rightarrow> res \<Rightarrow> res" where
  "res_setHeader name v r =
     r\<lparr>headers := filter (\<lambda>(k, _). k \<noteq> name) (headers r) @ [(name, v)]\<rparr>"

definition res_write :: "string \<Rightarrow> res \<Rightarrow> res" where
  "res_write chunk r = (if ended r then r else r\<lparr>written := written r @ [chunk]\<rparr>)"

definition res_end :: "res \<Rightarrow> res" where
  "res_end r = r\<lparr>ended := True\<rparr>"

section \<open>The chat completions handler\<close>

subsection \<open>The upstream call\<close>

text \<open>
  The arguments of \<^verbatim>\<open>axios.post\<close>, and the upstream as the function from them to what
  the awaited promise does: it rejects with an error (\<open>Inl\<close>) or resolves with a
  response (\<open>Inr\<close>).
\<close>

record post_call =
  post_url :: string
  post_body :: jsval
  post_headers :: "(string \<times> string) list"
  post_responseType :: string
  post_timeout :: nat

type_synonym upstream = "post_call \<Rightarrow> thrown + upstream_response"

subsection \<open>Streaming\<close>

text \<open>
  The three listeners on \<^verbatim>\<open>response.data\<close>: \<^verbatim>\<open>'data'\<close> writes the chunk,
  \<^verbatim>\<open>'end'\<close> ends the response, \<^verbatim>\<open>'error'\<close> logs and ends the response.
\<close>

fun on_event :: "stream_event \<Rightarrow> res \<Rightarrow> res" where
  "on_event (Data chunk) r = res_write chunk r"
| "on_event End r = res_end r"
| "on_event (Error err) r = res_end r"

definition relay :: "stream_event list \<Rightarrow> res \<Rightarrow> res" where
  "relay events r = fold on_event events r"

text \<open>
  The branch \<^verbatim>\<open>if (stream)\<close>: three headers, then the listeners. Should
  \<^verbatim>\<open>response.data\<close> not be a stream, \<^verbatim>\<open>response.data.on(...)\<close> throws after the
  headers are set.
\<close>

definition stream_branch :: "upstream_response \<Rightarrow> res \<Rightarrow> res \<times> thrown option" where
  "stream_branch response r =
     (let r1 = res_setHeader ''Content-Type'' ''text/event-stream'' r;
          r2 = res_setHeader ''Cache-Control'' ''no-cache'' r1;
          r3 = res_setHeader ''Connection'' ''keep-alive'' r2
      in case data response of
           Stream events \<Rightarrow> (relay events r3, None)
         | Parsed v \<Rightarrow>
             (r3, Some (case get_member v ''on'' of
                          Inl e \<Rightarrow> e
                        | Inr f \<Rightarrow> TypeError ''response.data.on is not a function'')))"

subsection \<open>Reshaping a buffered response\<close>

text \<open>
  \<^verbatim>\<open>
  choice => ({
    index: choice.index,
    message: { role: choice.message.role, content: choice.message.content },
    finish_reason: choice.finish_reason
  })
  \<close>
\<close>

definition transform_choice :: "jsval \<Rightarrow> thrown + jsval" where
  "transform_choice choice =
     (case get_member choice ''index'' of
        Inl e \<Rightarrow> Inl e
      | Inr idx \<Rightarrow>
     (case get_member choice ''message'' of
        Inl e \<Rightarrow> Inl e
      | Inr msg \<Rightarrow>
     (case get_member msg ''role'' of
        Inl e \<Rightarrow> Inl e
      | Inr role \<Rightarrow>
     (case get_member msg ''content'' of
        Inl e \<Rightarrow> Inl e
      | Inr content \<Rightarrow>
     (case get_member choice ''finish_reason'' of
        Inl e \<Rightarrow> Inl e
      | Inr finish_reason \<Rightarrow>
          Inr (JObj [(''index'', idx),
                     (''message'', JObj [(''role'', role), (''content'', content)]),
                     (''finish_reason'', finish_reason)]))))))"

text \<open>\<^verbatim>\<open>Array.prototype.map\<close> with that callback: the first throw ends it.\<close>

fun map_choices :: "jsval list \<Rightarrow> thrown + jsval list" where
  "map_choices [] = Inr []"
| "map_choices (c # cs) =
     (case transform_choice c of
        Inl e \<Rightarrow> Inl e
      | Inr c' \<Rightarrow> (case map_choices cs of Inl e \<Rightarrow> Inl e | Inr cs' \<Rightarrow> Inr (c' # cs')))"

text \<open>
  \<^verbatim>\<open>response.data.choices.map(...)\<close>: only an array has a \<^verbatim>\<open>map\<close> to call.
\<close>

definition choices_map :: "jsval \<Rightarrow> thrown + jsval list" where
  "choices_map choices =
     (case choices of
        JArr cs \<Rightarrow> map_choices cs
      | JUndefined \<Rightarrow> Inl (TypeError (''Cannot read properties of undefined (reading '' @ quoted ''map'' @ '')''))
      | JNull \<Rightarrow> Inl (TypeError (''Cannot read properties of null (reading '' @ quoted ''map'' @ '')''))
      | _ \<Rightarrow> Inl (TypeError ''response.data.choices.map is not a function''))"

text \<open>\<^verbatim>\<open>response.data\<close> as a value: a stream object has none of the properties read.\<close>

definition data_value :: "response_data \<Rightarrow> jsval" where
  "data_value d = (case d of Parsed v \<Rightarrow> v | Stream events \<Rightarrow> JObj [])"

definition zero_usage :: jsval where
  "zero_usage =
     JObj [(''prompt_tokens'', JNum 0), (''completion_tokens'', JNum 0), (''total_tokens'', JNum 0)]"

text \<open>
  The object literal \<^verbatim>\<open>openaiResponse\<close>. \<open>now_id\<close> and \<open>now_created\<close> are the
  two readings of \<^verbatim>\<open>Date.now()\<close>, the first inside the identifier, the second for
  \<^verbatim>\<open>Math.floor(Date.now() / 1000)\<close>.
\<close>

definition openaiResponse :: "int \<Rightarrow> int \<Rightarrow> jsval \<Rightarrow> upstream_response \<Rightarrow> thrown + jsval" where
  "openaiResponse now_id now_created model response =
     (case get_member (data_value (data response)) ''choices'' of
        Inl e \<Rightarrow> Inl e
      | Inr choices \<Rightarrow>
     (case choices_map choices of
        Inl e \<Rightarrow> Inl e
      | Inr cs \<Rightarrow>
          Inr (JObj [(''id'', JStr (''chatcmpl-'' @ integer_string now_id)),
                     (''object'', JStr ''chat.completion''),
                     (''created'', JNum (of_int (now_created div 1000))),
                     (''model'', model),
                     (''choices'', JArr cs),
                     (''usage'', or_js (opt_member (data_value (data response)) ''usage'')
                                      zero_usage)])))"

subsection \<open>The try block\<close>

text \<open>
  \<^verbatim>\<open>const { model, messages, temperature, max_tokens, stream } = req.body\<close>:
  destructuring \<^verbatim>\<open>undefined\<close> or \<^verbatim>\<open>null\<close> throws; otherwise each name is read from
  the body.
\<close>

definition destructure :: "jsval \<Rightarrow> thrown + (jsval \<times> jsval \<times> jsval \<times> jsval \<times> jsval)" where
  "destructure req_body =
     (if req_body = JUndefined \<or> req_body = JNull then
        Inl (TypeError (''Cannot destructure property '' @ quoted ''model'' @ '' of '' @
               quoted ''req.body'' @ '' as it is '' @
               (if req_body = JNull then ''null'' else ''undefined'') @ ''.''))
      else
        Inr (opt_member req_body ''model'',
             opt_member req_body ''messages'',
             opt_member req_body ''temperature'',
             opt_member req_body ''max_tokens'',
             opt_member req_body ''stream''))"

text \<open>
  The arguments of the one call
  \<^verbatim>\<open>axios.post(`${NIM_API_BASE}/chat/completions`, nimRequest, {headers, responseType, timeout})\<close>.
\<close>

definition axios_call :: "config \<Rightarrow> jsval \<Rightarrow> jsval \<Rightarrow> post_call" where
  "axios_call cfg nim_request stream =
     \<lparr>post_url = NIM_API_BASE cfg @ ''/chat/completions'',
      post_body = nim_request,
      post_headers =
        [(''Authorization'',
          ''Bearer '' @ (case NIM_API_KEY cfg of None \<Rightarrow> ''undefined'' | Some k \<Rightarrow> k)),
         (''Content-Type'', ''application/json'')],
      post_responseType = (if truthy stream then ''stream'' else ''json''),
      post_timeout = 60000\<rparr>"

text \<open>
  The body of \<^verbatim>\<open>try\<close> after the credential check, from the destructuring on. It
  returns the upstream calls made, the response object as it stands, and the error thrown,
  if one was. The calls of \<^verbatim>\<open>console.log\<close> are left out: they write to the log only,
  and the template literal in the first converts \<^verbatim>\<open>model\<close> as the lookup before it
  did, so it throws nothing new.
\<close>

definition try_block ::
  "(rat \<Rightarrow> string) \<Rightarrow> config \<Rightarrow> (nat \<Rightarrow> int) \<Rightarrow> upstream \<Rightarrow> jsval \<Rightarrow> res
     \<Rightarrow> post_call list \<times> res \<times> thrown option" where
  "try_block nts cfg clock axios_post req_body r =
     (case destructure req_body of
        Inl e \<Rightarrow> ([], r, Some e)
      | Inr (model, messages, temperature, max_tokens, stream) \<Rightarrow>
     (case nimModel nts model of
        Inl e \<Rightarrow> ([], r, Some e)
      | Inr nim_model \<Rightarrow>
          (let call = axios_call cfg
                        (nimRequest nim_model messages temperature max_tokens stream) stream
           in case axios_post call of
                Inl e \<Rightarrow> ([call], r, Some e)
              | Inr response \<Rightarrow>
                  if truthy stream then
                    (case stream_branch response r of (r', exc) \<Rightarrow> ([call], r', exc))
                  else
                    (case openaiResponse (clock 0) (clock 1) model response of
                       Inl e \<Rightarrow> ([call], r, Some e)
                     | Inr v \<Rightarrow> ([call], res_json v r, None)))))"

subsection \<open>The catch block\<close>

text \<open>
  \<^verbatim>\<open>
  const statusCode = error.response?.status || 500;
  const errorMessage = error.response?.data?.error?.message || error.message;
  res.status(statusCode).json({
    error: { message: errorMessage, type: 'nvidia_api_error', code: statusCode }
  });
  \<close>
\<close>

definition statusCode_of :: "thrown \<Rightarrow> nat" where
  "statusCode_of e =
     (case error_response e of
        None \<Rightarrow> 500
      | Some response \<Rightarrow> if status response = 0 then 500 else status response)"

definition errorMessage_of :: "thrown \<Rightarrow> jsval" where
  "errorMessage_of e =
     or_js (case error_response e of
              None \<Rightarrow> JUndefined
            | Some response \<Rightarrow>
                opt_member (opt_member (data_value (data response)) ''error'') ''message'')
           (error_message e)"

definition catch_block :: "thrown \<Rightarrow> res \<Rightarrow> res" where
  "catch_block e r =
     res_json
       (JObj [(''error'',
               JObj [(''message'', errorMessage_of e),
                     (''type'', JStr ''nvidia_api_error''),
                     (''code'', JNum (of_nat (statusCode_of e)))])])
       (res_status (statusCode_of e) r)"

subsection \<open>The handler\<close>

text \<open>What handling one request did: the response, and the upstream calls made.\<close>

record handled =
  result :: res
  upstream_calls :: "post_call list"

definition configuration_error :: jsval where
  "configuration_error =
     JObj [(''error'',
            JObj [(''message'',
                   JStr (''NIM_API_KEY n'' @ [CHR 0xE3] @ ''o configurada no servidor'')),
                  (''type'', JStr ''configuration_error'')])]"

text \<open>
  \<^verbatim>\<open>app.post('/v1/chat/completions', async (req, res) => { try { if (!NIM_API_KEY) {
  return res.status(500).json(...) } ... } catch (error) { ... } })\<close>
\<close>

definition chat_completions ::
  "(rat \<Rightarrow> string) \<Rightarrow> config \<Rightarrow> (nat \<Rightarrow> int) \<Rightarrow> upstream \<Rightarrow> jsval \<Rightarrow> handled" where
  "chat_completions nts cfg clock axios_post req_body =
     (if \<not> truthy (env_value (NIM_API_KEY cfg)) then
        \<lparr>result = res_json configuration_error (res_status 500 new_res), upstream_calls = []\<rparr>
      else
        (case try_block nts cfg clock axios_post req_body new_res of
           (calls, r, None) \<Rightarrow> \<lparr>result = r, upstream_calls = calls\<rparr>
         | (calls, r, Some e) \<Rightarrow> \<lparr>result = catch_block e r, upstream_calls = calls\<rparr>))"

section \<open>The other routes and the routing table\<close>

definition health :: "config \<Rightarrow> res" where
  "health cfg =
     res_json
       (JObj [(''status'', JStr ''ok''),
              (''service'', JStr ''OpenAI to NVIDIA NIM Proxy''),
              (''api_configured'', JBool (truthy (env_value (NIM_API_KEY cfg))))])
       new_res"

definition root :: res where
  "root =
     res_json
       (JObj [(''service'', JStr ''OpenAI to NVIDIA NIM Proxy''),
              (''status'', JStr ''running''),
              (''endpoints'',
               JObj [(''health'', JStr ''/health''),
                     (''models'', JStr ''/v1/models''),
                     (''chat'', JStr ''/v1/chat/completions'')])])
       new_res"

text \<open>
  \<^verbatim>\<open>Object.keys(MODEL_MAPPING).map(model => ({id: model, object: 'model',
  created: Date.now(), owned_by: 'nvidia-nim-proxy'}))\<close>, one clock reading per key.
\<close>

definition models :: "(nat \<Rightarrow> int) \<Rightarrow> res" where
  "models clock =
     res_json
       (JObj [(''object'', JStr ''list''),
              (''data'',
               JArr (map (\<lambda>(i, model).
                            JObj [(''id'', JStr model),
                                  (''object'', JStr ''model''),
                                  (''created'', JNum (of_int (clock i))),
                                  (''owned_by'', JStr ''nvidia-nim-proxy'')])
                         (enumerate 0 (map fst MODEL_MAPPING))))])
       new_res"

text \<open>
  \<^verbatim>\<open>
  app.all('*', (req, res) => {
    res.status(404).json({
      error: { message: `Endpoint ${req.path} n\~ao encontrado`, type: 'not_found' }
    });
  });
  \<close>
\<close>

definition not_found :: "string \<Rightarrow> res" where
  "not_found path =
     res_json
       (JObj [(''error'',
               JObj [(''message'',
                      JStr (''Endpoint '' @ path @ '' n'' @ [CHR 0xE3] @ ''o encontrado'')),
                     (''type'', JStr ''not_found'')])])
       (res_status 404 new_res)"

text \<open>
  What Express answers itself: the status, and a page that is not recorded here.
\<close>

definition express_error :: "nat \<Rightarrow> res" where
  "express_error code = new_res\<lparr>statusCode := code, ended := True\<rparr>"

text \<open>
  A request as the router hands it to a handler: the method, the path (\<^verbatim>\<open>req.path\<close>,
  the URL without its query string) and \<^verbatim>\<open>req.body\<close>.
\<close>

datatype http_method = GET | HEAD | POST | PUT | DELETE | PATCH | OPTIONS | OTHER string

record request =
  req_method :: http_method
  req_path :: string
  req_body :: jsval

text \<open>
  How Express 4 matches a route (a path of \<^verbatim>\<open>'*'\<close> is a route of Express 4 only),
  with the router's defaults: letters match in either case, one trailing slash is
  optional, \<^verbatim>\<open>'*'\<close> matches every path; a route registered with \<^verbatim>\<open>app.get\<close> also
  answers HEAD, one registered with \<^verbatim>\<open>app.all\<close> every method.
\<close>

definition lower_char :: "char \<Rightarrow> char" where
  "lower_char c =
     (if 65 \<le> (of_char c :: nat) \<and> (of_char c :: nat) \<le> 90 then char_of (of_char c + (32 :: nat))
      else c)"

definition path_matches :: "string \<Rightarrow> string \<Rightarrow> bool" where
  "path_matches pattern path =
     (if pattern = ''*'' then True
      else if pattern \<noteq> [] \<and> last pattern = CHR ''/'' then
        map lower_char path = map lower_char pattern \<or>
        map lower_char path = map lower_char (butlast pattern)
      else
        map lower_char path = map lower_char pattern \<or>
        map lower_char path = map lower_char pattern @ ''/'')"

datatype verb = Get | Post | All

fun handles_method :: "verb \<Rightarrow> http_method \<Rightarrow> bool" where
  "handles_method All m = True"
| "handles_method Get m = (m = GET \<or> m = HEAD)"
| "handles_method Post m = (m = POST)"

definition route_matches :: "verb \<Rightarrow> string \<Rightarrow> request \<Rightarrow> bool" where
  "route_matches v pattern req = (handles_method v (req_method req) \<and> path_matches pattern (req_path req))"

subsection \<open>Paths that cannot be decoded\<close>

text \<open>
  When a request reaches the route \<^verbatim>\<open>'*'\<close>, Express stores the matched path as a route
  parameter and decodes it with \<^verbatim>\<open>decodeURIComponent\<close>; if that throws, no handler
  runs and Express answers 400. \<^verbatim>\<open>decodeURIComponent\<close> throws when a percent sign is
  not followed by two hexadecimal digits, or when the escaped octets are not the UTF-8
  encoding of a code point: an octet below 128 stands alone; an octet with two, three or
  four leading one bits needs one, two or three escapes right after it, and the octets
  together must be well-formed UTF-8; any other octet is refused.
\<close>

definition hex_value :: "char \<Rightarrow> nat option" where
  "hex_value c =
     (let n = (of_char c :: nat)
      in if 48 \<le> n \<and> n \<le> 57 then Some (n - 48)
         else if 65 \<le> n \<and> n \<le> 70 then Some (n - 55)
         else if 97 \<le> n \<and> n \<le> 102 then Some (n - 87)
         else None)"

text \<open>The octet of an escape \<^verbatim>\<open>%XY\<close> at the head of a string.\<close>

fun percent_octet :: "string \<Rightarrow> nat option" where
  "percent_octet (p # x # y # rest) =
     (if p = CHR ''%'' then
        (case hex_value x of
           None \<Rightarrow> None
         | Some a \<Rightarrow> (case hex_value y of None \<Rightarrow> None | Some b \<Rightarrow> Some (16 * a + b)))
      else None)"
| "percent_octet s = None"

text \<open>The number of leading one bits of an octet; 5 stands for five and more.\<close>

definition leading_ones :: "nat \<Rightarrow> nat" where
  "leading_ones b =
     (if b < 128 then 0 else if b < 192 then 1 else if b < 224 then 2
      else if b < 240 then 3 else if b < 248 then 4 else 5)"

text \<open>The octets of \<open>j\<close> escapes in a row.\<close>

fun continuation_octets :: "nat \<Rightarrow> string \<Rightarrow> nat list option" where
  "continuation_octets 0 s = Some []"
| "continuation_octets (Suc j) s =
     (case percent_octet s of
        None \<Rightarrow> None
      | Some b \<Rightarrow>
          (case continuation_octets j (drop 3 s) of None \<Rightarrow> None | Some bs \<Rightarrow> Some (b # bs)))"

definition continuation_byte :: "nat \<Rightarrow> bool" where
  "continuation_byte b = (128 \<le> b \<and> b < 192)"

text \<open>Well-formed UTF-8 of two, three and four octets.\<close>

fun valid_utf8 :: "nat list \<Rightarrow> bool" where
  "valid_utf8 [a, b] = (194 \<le> a \<and> a \<le> 223 \<and> continuation_byte b)"
| "valid_utf8 [a, b, c] =
     (((a = 224 \<and> 160 \<le> b \<and> b \<le> 191) \<or>
       (225 \<le> a \<and> a \<le> 236 \<and> continuation_byte b) \<or>
       (a = 237 \<and> 128 \<le> b \<and> b \<le> 159) \<or>
       (238 \<le> a \<and> a \<le> 239 \<and> continuation_byte b)) \<and>
      continuation_byte c)"
| "valid_utf8 [a, b, c, d] =
     (((a = 240 \<and> 144 \<le> b \<and> b \<le> 191) \<or>
       (241 \<le> a \<and> a \<le> 243 \<and> continuation_byte b) \<or>
       (a = 244 \<and> 128 \<le> b \<and> b \<le> 143)) \<and>
      continuation_byte c \<and> continuation_byte d)"
| "valid_utf8 octets = False"

text \<open>Whether \<^verbatim>\<open>decodeURIComponent\<close> returns for a string.\<close>

fun uri_decodes :: "string \<Rightarrow> bool" where
  "uri_decodes [] = True"
| "uri_decodes (c # s) =
     (if c \<noteq> CHR ''%'' then uri_decodes s
      else
        (case percent_octet (c # s) of
           None \<Rightarrow> False
         | Some b \<Rightarrow>
             if leading_ones b = 0 then uri_decodes (drop 2 s)
             else if leading_ones b = 1 \<or> 4 < leading_ones b then False
             else
               (case continuation_octets (leading_ones b - 1) (drop 2 s) of
                  None \<Rightarrow> False
                | Some bs \<Rightarrow>
                    valid_utf8 (b # bs) \<and>
                    uri_decodes (drop (2 + 3 * (leading_ones b - 1)) s))))"

subsection \<open>The router\<close>

text \<open>
  The routes in the order registered; the first that matches answers. The last one,
  \<^verbatim>\<open>app.all('*', ...)\<close>, matches every method and every path, so it takes whatever the
  four before it leave: its handler runs when the path can be decoded, and Express answers
  400 when it cannot.
\<close>

definition routes ::
  "(rat \<Rightarrow> string) \<Rightarrow> config \<Rightarrow> (nat \<Rightarrow> int) \<Rightarrow> upstream \<Rightarrow> request \<Rightarrow> handled" where
  "routes nts cfg clock axios_post req =
     (if route_matches Get ''/health'' req then
        \<lparr>result = health cfg, upstream_calls = []\<rparr>
      else if route_matches Get ''/'' req then
        \<lparr>result = root, upstream_calls = []\<rparr>
      else if route_matches Get ''/v1/models'' req then
        \<lparr>result = models clock, upstream_calls = []\<rparr>
      else if route_matches Post ''/v1/chat/completions'' req then
        chat_completions nts cfg clock axios_post (req_body req)
      else if uri_decodes (req_path req) then
        \<lparr>result = not_found (req_path req), upstream_calls = []\<rparr>
      else
        \<lparr>result = express_error 400, upstream_calls = []\<rparr>)"

subsection \<open>The application\<close>

text \<open>
  A request as it arrives: the method, the path, and what \<^verbatim>\<open>express.json()\<close> makes of
  the body: it refuses it with a status (\<open>Inl\<close>: 400 for text that is not JSON, 413
  for a body over the size limit, 415 for a charset it does not read), or it stores a value
  in \<^verbatim>\<open>req.body\<close> (\<open>Inr\<close>: the parsed object or array, the empty object when there
  is no JSON body).
\<close>

record incoming =
  in_method :: http_method
  in_path :: string
  in_body :: "nat + jsval"

text \<open>
  \<^verbatim>\<open>cors()\<close> with its defaults ends every OPTIONS request itself: status 204, no body.
  On every other request it only adds a header and passes the request on. (The headers
  \<^verbatim>\<open>cors()\<close> sets are not recorded in \<^verbatim>\<open>res\<close>.)
\<close>

definition cors_preflight :: res where
  "cors_preflight = new_res\<lparr>statusCode := 204, ended := True\<rparr>"

text \<open>
  \<^verbatim>\<open>app\<close>: the two middlewares in the order \<^verbatim>\<open>app.use\<close> registers them,
  \<^verbatim>\<open>cors()\<close> and \<^verbatim>\<open>express.json()\<close>, then the routes.
\<close>

definition app ::
  "(rat \<Rightarrow> string) \<Rightarrow> config \<Rightarrow> (nat \<Rightarrow> int) \<Rightarrow> upstream \<Rightarrow> incoming \<Rightarrow> handled" where
  "app nts cfg clock axios_post inc =
     (if in_method inc = OPTIONS then
        \<lparr>result = cors_preflight, upstream_calls = []\<rparr>
      else
        (case in_body inc of
           Inl code \<Rightarrow> \<lparr>result = express_error code, upstream_calls = []\<rparr>
         | Inr body \<Rightarrow>
             routes nts cfg clock axios_post
               \<lparr>req_method = in_method inc, req_path = in_path inc, req_body = body\<rparr>))"

section \<open>Decimal digits\<close>

declare digits.simps [simp del]

lemma digit_char_inj: "a < 10 \<Longrightarrow> b < 10 \<Longrightarrow> digit_char a = digit_char b \<Longrightarrow> a = b"
  unfolding digit_char_def
  using nth_eq_iff_index_eq [of "''0123456789''" a b] by simp

lemma digit_char_not_minus: "d < 10 \<Longrightarrow> digit_char d \<noteq> CHR ''-''"
  unfolding digit_char_def
  using nth_mem [of d "''0123456789''"] by auto

lemma digits_not_Nil: "digits n \<noteq> []"
  by (subst digits.simps) simp

text \<open>Two numbers with the same digits are the same number.\<close>

lemma digits_inj: "digits m = digits n \<Longrightarrow> m = n"
proof (induction m arbitrary: n rule: digits.induct)
  case (1 m)
  show ?case
  proof (cases "m < 10")
    case m: True
    show ?thesis
    proof (cases "n < 10")
      case True
      with m 1(2) show ?thesis
        by (simp add: digits.simps [of m] digits.simps [of n] digit_char_inj)
    next
      case False
      with m 1(2) show ?thesis
        using digits_not_Nil [of "n div 10"]
        by (simp add: digits.simps [of m] digits.simps [of n] Cons_eq_append_conv)
    qed
  next
    case m: False
    show ?thesis
    proof (cases "n < 10")
      case True
      with m 1(2) show ?thesis
        using digits_not_Nil [of "m div 10"]
        by (simp add: digits.simps [of m] digits.simps [of n] append_eq_Cons_conv)
    next
      case False
      with m 1(2) have tens: "digits (m div 10) = digits (n div 10)"
        and units: "digit_char (m mod 10) = digit_char (n mod 10)"
        by (simp_all add: digits.simps [of m] digits.simps [of n])
      from 1(1) [OF m tens] have "m div 10 = n div 10" .
      moreover from units have "m mod 10 = n mod 10"
        by (rule digit_char_inj [rotated 2]) simp_all
      ultimately show ?thesis
        by (metis div_mult_mod_eq)
    qed
  qed
qed

lemma hd_digits: "hd (digits n) \<noteq> CHR ''-''"
proof (induction n rule: digits.induct)
  case (1 n)
  show ?case
  proof (cases "n < 10")
    case True
    then show ?thesis by (simp add: digits.simps [of n] digit_char_not_minus)
  next
    case False
    with 1 show ?thesis
      by (simp add: digits.simps [of n] digits_not_Nil)
  qed
qed

lemma integer_string_inj: "integer_string i = integer_string j \<Longrightarrow> i = j"
proof -
  assume eq: "integer_string i = integer_string j"
  have minus: "CHR ''-'' # digits a \<noteq> digits b" for a b
    using hd_digits [of b] by (cases "digits b") (auto simp: digits_not_Nil)
  show ?thesis
  proof (cases "i < 0")
    case i: True
    show ?thesis
    proof (cases "j < 0")
      case True
      with i eq have "digits (nat (- i)) = digits (nat (- j))"
        by (simp add: integer_string_def)
      then have "nat (- i) = nat (- j)" by (rule digits_inj)
      with i True show ?thesis by simp
    next
      case False
      with i eq minus show ?thesis by (simp add: integer_string_def)
    qed
  next
    case i: False
    show ?thesis
    proof (cases "j < 0")
      case True
      with i eq minus [of "nat (- j)" "nat i"] show ?thesis
        by (simp add: integer_string_def)
    next
      case False
      with i eq have "digits (nat i) = digits (nat j)"
        by (simp add: integer_string_def)
      then have "nat i = nat j" by (rule digits_inj)
      with i False show ?thesis by simp
    qed
  qed
qed

section \<open>Model resolution\<close>

lemma MODEL_MAPPING_default:
  "MODEL_MAPPING_get ''gpt-3.5-turbo'' = JStr ''meta/llama-3.1-8b-instruct''"
  by (simp add: MODEL_MAPPING_get_def MODEL_MAPPING_def)

lemma nimModel_string:
  "nimModel nts (JStr requested) =
     Inr (if truthy (MODEL_MAPPING_get requested) then MODEL_MAPPING_get requested
          else JStr ''meta/llama-3.1-8b-instruct'')"
  by (simp add: nimModel_def or_js_def MODEL_MAPPING_default)

text \<open>A key of the table resolves to the value the table gives it.\<close>

lemma nimModel_table_key:
  "map_of MODEL_MAPPING requested = Some v \<Longrightarrow> nimModel nts (JStr requested) = Inr v"
  by (auto simp add: nimModel_string MODEL_MAPPING_get_def MODEL_MAPPING_def split: if_splits)

text \<open>
  A name that is neither a key of the table nor a property of \<^verbatim>\<open>Object.prototype\<close>
  resolves to the default entry.
\<close>

lemma nimModel_fallback:
  "map_of MODEL_MAPPING requested = None \<Longrightarrow> map_of Object_prototype requested = None \<Longrightarrow>
   nimModel nts (JStr requested) = Inr (JStr ''meta/llama-3.1-8b-instruct'')"
  by (simp add: nimModel_string MODEL_MAPPING_get_def)

text \<open>
  C3, at the identifier \<^verbatim>\<open>"constructor"\<close>: it is not a key of the table, and the
  lookup \<^verbatim>\<open>MODEL_MAPPING[model]\<close> finds the inherited \<^verbatim>\<open>Object\<close> function, which is
  truthy, so \<^verbatim>\<open>nimModel\<close> is that function and not the value mapped from
  \<^verbatim>\<open>"gpt-3.5-turbo"\<close>.
\<close>

theorem nimModel_inherited_property:
  "map_of MODEL_MAPPING ''constructor'' = None \<and>
   nimModel nts (JStr ''constructor'') = Inr (JFunction ''Object'') \<and>
   MODEL_MAPPING_get ''gpt-3.5-turbo'' = JStr ''meta/llama-3.1-8b-instruct''"
  by (simp add: nimModel_string MODEL_MAPPING_get_def MODEL_MAPPING_def Object_prototype_def)





section \<open>The upstream request and its defaults\<close>

lemma nimRequest_members:
  "opt_member (nimRequest nim_model messages temperature max_tokens stream) ''model'' = nim_model"
  "opt_member (nimRequest nim_model messages temperature max_tokens stream) ''messages'' = messages"
  "opt_member (nimRequest nim_model messages temperature max_tokens stream) ''temperature'' =
     or_js temperature (JNum (7 / 10))"
  "opt_member (nimRequest nim_model messages temperature max_tokens stream) ''max_tokens'' =
     or_js max_tokens (JNum 2048)"
  "opt_member (nimRequest nim_model messages temperature max_tokens stream) ''stream'' =
     or_js stream (JBool False)"
  by (simp_all add: nimRequest_def opt_member_def)

text \<open>The fields of a body that can be destructured.\<close>

lemma destructure_Inr:
  "destructure body = Inr parts \<Longrightarrow>
   parts = (opt_member body ''model'', opt_member body ''messages'',
             opt_member body ''temperature'', opt_member body ''max_tokens'',
             opt_member body ''stream'')"
  by (auto simp add: destructure_def split: if_splits)

text \<open>
  The handler calls the upstream at most once, and with the request built from the body's
  fields.
\<close>

lemma try_block_calls:
  "fst (try_block nts cfg clock axios_post body r) = [] \<or>
   (\<exists>nim_model.
      fst (try_block nts cfg clock axios_post body r) =
        [axios_call cfg
           (nimRequest nim_model (opt_member body ''messages'') (opt_member body ''temperature'')
              (opt_member body ''max_tokens'') (opt_member body ''stream''))
           (opt_member body ''stream'')])"
proof (cases "destructure body")
  case (Inl e)
  then show ?thesis by (simp add: try_block_def)
next
  case (Inr parts)
  note parts = destructure_Inr [OF Inr]
  show ?thesis
  proof (cases "nimModel nts (opt_member body ''model'')")
    case (Inl e)
    with Inr parts show ?thesis by (simp add: try_block_def)
  next
    case nim: (Inr nim_model)
    have "fst (try_block nts cfg clock axios_post body r) =
        [axios_call cfg
           (nimRequest nim_model (opt_member body ''messages'') (opt_member body ''temperature'')
              (opt_member body ''max_tokens'') (opt_member body ''stream''))
           (opt_member body ''stream'')]"
      using Inr parts nim
      by (simp add: try_block_def Let_def split: sum.splits prod.splits)
    then show ?thesis by blast
  qed
qed

lemma chat_completions_calls:
  "upstream_calls (chat_completions nts cfg clock axios_post body) =
     (if truthy (env_value (NIM_API_KEY cfg))
      then fst (try_block nts cfg clock axios_post body new_res) else [])"
  by (simp add: chat_completions_def split: prod.splits option.splits)

text \<open>
  C10: a \<^verbatim>\<open>temperature\<close> of 0 is sent upstream as 0.7 and a \<^verbatim>\<open>max_tokens\<close> of 0 as
  2048, in the request object built and in every upstream call the handler makes for a
  body with such a field: \<^verbatim>\<open>||\<close> replaces every falsy value, and 0 is falsy.
\<close>

theorem falsy_zero_is_defaulted:
  "opt_member (nimRequest nim_model messages (JNum 0) max_tokens stream) ''temperature'' =
     JNum (7 / 10) \<and>
   opt_member (nimRequest nim_model messages temperature (JNum 0) stream) ''max_tokens'' =
     JNum 2048 \<and>
   (\<forall>c \<in> set (upstream_calls (chat_completions nts cfg clock axios_post body)).
      (opt_member body ''temperature'' = JNum 0 \<longrightarrow>
         opt_member (post_body c) ''temperature'' = JNum (7 / 10)) \<and>
      (opt_member body ''max_tokens'' = JNum 0 \<longrightarrow>
         opt_member (post_body c) ''max_tokens'' = JNum 2048))"
proof (intro conjI ballI)
  show "opt_member (nimRequest nim_model messages (JNum 0) max_tokens stream) ''temperature'' =
      JNum (7 / 10)"
    by (simp add: nimRequest_members or_js_def)
  show "opt_member (nimRequest nim_model messages temperature (JNum 0) stream) ''max_tokens'' =
      JNum 2048"
    by (simp add: nimRequest_members or_js_def)
next
  fix c
  assume "c \<in> set (upstream_calls (chat_completions nts cfg clock axios_post body))"
  then obtain nim_model where call:
    "c = axios_call cfg
           (nimRequest nim_model (opt_member body ''messages'') (opt_member body ''temperature'')
              (opt_member body ''max_tokens'') (opt_member body ''stream''))
           (opt_member body ''stream'')"
    using try_block_calls [of nts cfg clock axios_post body new_res]
    by (auto simp add: chat_completions_calls split: if_splits)
  show "opt_member body ''temperature'' = JNum 0 \<longrightarrow>
         opt_member (post_body c) ''temperature'' = JNum (7 / 10)"
    by (simp add: call axios_call_def nimRequest_members or_js_def)
  show "opt_member body ''max_tokens'' = JNum 0 \<longrightarrow>
         opt_member (post_body c) ''max_tokens'' = JNum 2048"
    by (simp add: call axios_call_def nimRequest_members or_js_def)
qed

lemma try_block_calls_Inr:
  assumes "destructure body = Inr (model, messages, temperature, max_tokens, stream)"
    and "nimModel nts model = Inr nim_model"
  shows "fst (try_block nts cfg clock axios_post body r) =
           [axios_call cfg (nimRequest nim_model messages temperature max_tokens stream) stream]"
  using assms by (simp add: try_block_def Let_def split: sum.splits prod.splits)

theorem falsy_zero_is_defaulted_witness:
  "\<exists>c. upstream_calls
          (chat_completions (\<lambda>q. [])
             \<lparr>NIM_API_BASE = ''https://integrate.api.nvidia.com/v1'', NIM_API_KEY = Some ''key''\<rparr>
             (\<lambda>n. 0) (\<lambda>c. Inl (TypeError ''timeout of 60000ms exceeded''))
             (JObj [(''model'', JStr ''gpt-4''), (''messages'', JArr []),
                    (''temperature'', JNum 0), (''max_tokens'', JNum 0)])) = [c] \<and>
        opt_member (post_body c) ''temperature'' = JNum (7 / 10) \<and>
        opt_member (post_body c) ''max_tokens'' = JNum 2048"
proof -
  let ?cfg = "\<lparr>NIM_API_BASE = ''https://integrate.api.nvidia.com/v1'', NIM_API_KEY = Some ''key''\<rparr>"
  let ?body = "JObj [(''model'', JStr ''gpt-4''), (''messages'', JArr []),
                    (''temperature'', JNum 0), (''max_tokens'', JNum 0)]"
  let ?h = "chat_completions (\<lambda>q. []) ?cfg (\<lambda>n. 0)
              (\<lambda>c. Inl (TypeError ''timeout of 60000ms exceeded'')) ?body"
  have d: "destructure ?body = Inr (JStr ''gpt-4'', JArr [], JNum 0, JNum 0, JUndefined)"
    by (simp add: destructure_def opt_member_def)
  have m: "nimModel (\<lambda>q. []) (JStr ''gpt-4'') = Inr (JStr ''meta/llama-3.1-70b-instruct'')"
    by (rule nimModel_table_key) (simp add: MODEL_MAPPING_def)
  have "\<exists>c. upstream_calls ?h = [c]"
    by (simp add: chat_completions_calls env_value_def try_block_calls_Inr [OF d m])
  then obtain c where calls: "upstream_calls ?h = [c]" ..
  have t: "opt_member ?body ''temperature'' = JNum 0" and k: "opt_member ?body ''max_tokens'' = JNum 0"
    by (simp_all add: opt_member_def)
  from falsy_zero_is_defaulted [where body = ?body and nts = "\<lambda>q. []" and cfg = ?cfg
      and clock = "\<lambda>n. 0" and axios_post = "\<lambda>c. Inl (TypeError ''timeout of 60000ms exceeded'')"]
  have "opt_member (post_body c) ''temperature'' = JNum (7 / 10) \<and>
        opt_member (post_body c) ''max_tokens'' = JNum 2048"
    using calls t k by simp
  with calls show ?thesis by blast
qed

text \<open>
  C1, at the body \<^verbatim>\<open>{"model": "gpt-4", "messages": [{"role": "user", "content": "hi"}],
  "temperature": 0}\<close>: the handler makes one upstream call, and the request it sends
  has the temperature 0.7, not the 0 the caller gave.
\<close>

theorem explicit_zero_temperature_replaced:
  "map (\<lambda>c. opt_member (post_body c) ''temperature'')
     (upstream_calls
        (chat_completions nts \<lparr>NIM_API_BASE = base, NIM_API_KEY = Some ''key''\<rparr> clock axios_post
           (JObj [(''model'', JStr ''gpt-4''),
                  (''messages'', JArr [JObj [(''role'', JStr ''user''), (''content'', JStr ''hi'')]]),
                  (''temperature'', JNum 0)]))) = [JNum (7 / 10)]"
proof -
  let ?body = "JObj [(''model'', JStr ''gpt-4''),
                  (''messages'', JArr [JObj [(''role'', JStr ''user''), (''content'', JStr ''hi'')]]),
                  (''temperature'', JNum 0)]"
  have d: "destructure ?body =
      Inr (JStr ''gpt-4'', JArr [JObj [(''role'', JStr ''user''), (''content'', JStr ''hi'')]],
           JNum 0, JUndefined, JUndefined)"
    by (simp add: destructure_def opt_member_def)
  have m: "nimModel nts (JStr ''gpt-4'') = Inr (JStr ''meta/llama-3.1-70b-instruct'')"
    by (rule nimModel_table_key) (simp add: MODEL_MAPPING_def)
  show ?thesis
    by (simp add: chat_completions_calls env_value_def try_block_calls_Inr [OF d m]
        axios_call_def nimRequest_members or_js_def)
qed

text \<open>
  What the defaults do otherwise: an omitted field, which reads as \<^verbatim>\<open>undefined\<close>,
  gets the default, and a truthy value passes through as it is.
\<close>

lemma nimRequest_omitted:
  "nimRequest nim_model messages JUndefined JUndefined JUndefined =
     JObj [(''model'', nim_model), (''messages'', messages), (''temperature'', JNum (7 / 10)),
           (''max_tokens'', JNum 2048), (''stream'', JBool False)]"
  by (simp add: nimRequest_def or_js_def)

lemma nimRequest_truthy:
  "truthy temperature \<Longrightarrow> truthy max_tokens \<Longrightarrow> truthy stream \<Longrightarrow>
   nimRequest nim_model messages temperature max_tokens stream =
     JObj [(''model'', nim_model), (''messages'', messages), (''temperature'', temperature),
           (''max_tokens'', max_tokens), (''stream'', stream)]"
  by (simp add: nimRequest_def or_js_def)

section \<open>The handler: credential check and failures\<close>

lemma try_block_rejected:
  assumes "destructure body = Inr (model, messages, temperature, max_tokens, stream)"
    and "nimModel nts model = Inr nim_model"
    and "axios_post (axios_call cfg (nimRequest nim_model messages temperature max_tokens stream) stream) = Inl e"
  shows "try_block nts cfg clock axios_post body r =
           ([axios_call cfg (nimRequest nim_model messages temperature max_tokens stream) stream],
            r, Some e)"
  using assms by (simp add: try_block_def Let_def)

lemma try_block_buffered:
  assumes "destructure body = Inr (model, messages, temperature, max_tokens, stream)"
    and "nimModel nts model = Inr nim_model"
    and "axios_post (axios_call cfg (nimRequest nim_model messages temperature max_tokens stream) stream) = Inr response"
    and "\<not> truthy stream"
  shows "try_block nts cfg clock axios_post body r =
           (case openaiResponse (clock 0) (clock 1) model response of
              Inl e \<Rightarrow>
                ([axios_call cfg (nimRequest nim_model messages temperature max_tokens stream) stream],
                 r, Some e)
            | Inr v \<Rightarrow>
                ([axios_call cfg (nimRequest nim_model messages temperature max_tokens stream) stream],
                 res_json v r, None))"
  using assms by (simp add: try_block_def Let_def split: sum.splits)

lemma try_block_streamed:
  assumes "destructure body = Inr (model, messages, temperature, max_tokens, stream)"
    and "nimModel nts model = Inr nim_model"
    and "axios_post (axios_call cfg (nimRequest nim_model messages temperature max_tokens stream) stream) = Inr response"
    and "truthy stream"
  shows "try_block nts cfg clock axios_post body r =
           ([axios_call cfg (nimRequest nim_model messages temperature max_tokens stream) stream],
            stream_branch response r)"
  using assms by (simp add: try_block_def Let_def split: prod.splits)

lemma chat_completions_result:
  assumes "truthy (env_value (NIM_API_KEY cfg))"
    and "try_block nts cfg clock axios_post body new_res = (calls, r, exc)"
  shows "result (chat_completions nts cfg clock axios_post body) =
           (case exc of None \<Rightarrow> r | Some e \<Rightarrow> catch_block e r)"
  using assms by (simp add: chat_completions_def split: option.splits)

lemma catch_block_new_res:
  "catch_block e new_res =
     \<lparr>statusCode = statusCode_of e, headers = [],
      body_json = Some (JObj [(''error'',
        JObj [(''message'', errorMessage_of e), (''type'', JStr ''nvidia_api_error''),
              (''code'', JNum (of_nat (statusCode_of e)))])]),
      written = [], ended = True\<rparr>"
  by (simp add: catch_block_def res_json_def res_status_def new_res_def)

lemma errorMessage_of_cases:
  "errorMessage_of e =
     (let upstream_message =
            (case error_response e of
               None \<Rightarrow> JUndefined
             | Some u \<Rightarrow>
                 (case data u of
                    Parsed d \<Rightarrow> opt_member (opt_member d ''error'') ''message''
                  | Stream events \<Rightarrow> JUndefined))
      in if truthy upstream_message then upstream_message else error_message e)"
  by (simp add: errorMessage_of_def or_js_def data_value_def opt_member_def Let_def
      split: option.splits response_data.splits)

text \<open>
  C2: without a credential (\<^verbatim>\<open>NIM_API_KEY\<close> not set, or set to the empty string) the
  handler answers 500 with the error object of type \<^verbatim>\<open>configuration_error\<close> and makes
  no upstream call, whatever the body is and whatever the upstream would do; the routes
  hand it every request the route \<^verbatim>\<open>POST /v1/chat/completions\<close> matches, and so does
  the application when \<^verbatim>\<open>express.json()\<close> accepts the body.
\<close>

theorem missing_credential:
  assumes "\<not> truthy (env_value (NIM_API_KEY cfg))"
  shows "chat_completions nts cfg clock axios_post body =
           \<lparr>result =
              \<lparr>statusCode = 500, headers = [],
               body_json =
                 Some (JObj [(''error'',
                   JObj [(''message'',
                          JStr (''NIM_API_KEY n'' @ [CHR 0xE3] @ ''o configurada no servidor'')),
                         (''type'', JStr ''configuration_error'')])]),
               written = [], ended = True\<rparr>,
            upstream_calls = []\<rparr> \<and>
         (route_matches Post ''/v1/chat/completions'' req \<longrightarrow>
          routes nts cfg clock axios_post req =
            chat_completions nts cfg clock axios_post (req_body req)) \<and>
         (in_body inc = Inr accepted \<and>
          route_matches Post ''/v1/chat/completions''
            \<lparr>req_method = in_method inc, req_path = in_path inc, req_body = accepted\<rparr> \<longrightarrow>
          app nts cfg clock axios_post inc =
            chat_completions nts cfg clock axios_post accepted)"
  using assms
  by (auto simp add: chat_completions_def res_json_def res_status_def new_res_def
      configuration_error_def routes_def app_def route_matches_def)

theorem missing_credential_witness:
  "app (\<lambda>q. [])
     \<lparr>NIM_API_BASE = ''https://integrate.api.nvidia.com/v1'', NIM_API_KEY = None\<rparr>
     (\<lambda>n. 0) (\<lambda>c. Inr \<lparr>status = 200, data = Parsed (JObj [])\<rparr>)
     \<lparr>in_method = POST, in_path = ''/v1/chat/completions'',
      in_body = Inr (JObj [(''model'', JObj [(''toString'', JNum 1)])])\<rparr> =
           \<lparr>result =
              \<lparr>statusCode = 500, headers = [],
               body_json =
                 Some (JObj [(''error'',
                   JObj [(''message'',
                          JStr (''NIM_API_KEY n'' @ [CHR 0xE3] @ ''o configurada no servidor'')),
                         (''type'', JStr ''configuration_error'')])]),
               written = [], ended = True\<rparr>,
            upstream_calls = []\<rparr>"
proof -
  let ?cfg = "\<lparr>NIM_API_BASE = ''https://integrate.api.nvidia.com/v1'', NIM_API_KEY = None\<rparr>"
  let ?body = "JObj [(''model'', JObj [(''toString'', JNum 1)])]"
  let ?inc = "\<lparr>in_method = POST, in_path = ''/v1/chat/completions'', in_body = Inr ?body\<rparr>"
  have key: "\<not> truthy (env_value (NIM_API_KEY ?cfg))"
    by (simp add: env_value_def)
  have stored: "in_body ?inc = Inr ?body"
    by simp
  have route: "route_matches Post ''/v1/chat/completions''
      \<lparr>req_method = in_method ?inc, req_path = in_path ?inc, req_body = ?body\<rparr>"
    by (simp add: route_matches_def path_matches_def)
  note handled = missing_credential [OF key, where inc = ?inc and accepted = ?body and body = ?body]
  from handled stored route show ?thesis by simp
qed

text \<open>
  What the catch block answers when the upstream call fails (the promise rejects: no
  response on a network failure or a timeout, a response with its status when the upstream
  answered outside 2xx) or the buffered body cannot be reshaped: the error object with the
  type \<^verbatim>\<open>nvidia_api_error\<close>; its code, which is also the HTTP status of the reply, is
  the upstream status when the error carries a response and 500 otherwise; its message is
  \<^verbatim>\<open>error.message\<close> of the upstream body when axios parsed the body and it holds a
  non-empty one, and the description of the failure otherwise, also when the body is an
  unparsed stream.
\<close>

lemma catch_block_reply:
  assumes key: "truthy (env_value (NIM_API_KEY cfg))"
    and fields: "destructure body = Inr (model, messages, temperature, max_tokens, stream)"
    and nim: "nimModel nts model = Inr nim_model"
    and failure:
      "axios_post (axios_call cfg (nimRequest nim_model messages temperature max_tokens stream) stream)
         = Inl e \<or>
       (\<exists>response.
          axios_post (axios_call cfg (nimRequest nim_model messages temperature max_tokens stream) stream)
            = Inr response \<and>
          \<not> truthy stream \<and> openaiResponse (clock 0) (clock 1) model response = Inl e)"
  shows
    "let code = (case error_response e of
                   None \<Rightarrow> 500
                 | Some u \<Rightarrow> if status u = 0 then 500 else status u);
         upstream_message =
           (case error_response e of
              None \<Rightarrow> JUndefined
            | Some u \<Rightarrow>
                (case data u of
                   Parsed d \<Rightarrow> opt_member (opt_member d ''error'') ''message''
                 | Stream events \<Rightarrow> JUndefined));
         msg = (if truthy upstream_message then upstream_message else error_message e)
     in result (chat_completions nts cfg clock axios_post body) =
          \<lparr>statusCode = code, headers = [],
           body_json = Some (JObj [(''error'',
             JObj [(''message'', msg), (''type'', JStr ''nvidia_api_error''),
                   (''code'', JNum (of_nat code))])]),
           written = [], ended = True\<rparr>"
proof -
  let ?call = "axios_call cfg (nimRequest nim_model messages temperature max_tokens stream) stream"
  have "try_block nts cfg clock axios_post body new_res = ([?call], new_res, Some e)"
    using failure
  proof
    assume "axios_post ?call = Inl e"
    then show ?thesis by (rule try_block_rejected [OF fields nim])
  next
    assume "\<exists>response. axios_post ?call = Inr response \<and> \<not> truthy stream \<and>
        openaiResponse (clock 0) (clock 1) model response = Inl e"
    then obtain response where "axios_post ?call = Inr response" "\<not> truthy stream"
      and "openaiResponse (clock 0) (clock 1) model response = Inl e"
      by blast
    then show ?thesis by (simp add: try_block_buffered [OF fields nim])
  qed
  then have "result (chat_completions nts cfg clock axios_post body) = catch_block e new_res"
    using key by (simp add: chat_completions_result)
  then show ?thesis
    by (simp add: catch_block_new_res errorMessage_of_cases statusCode_of_def Let_def)
qed

text \<open>
  A request that does not stream, answered upstream with status 429 and the body
  \<^verbatim>\<open>{"error": {"message": "rate limited"}}\<close>: the caller gets the upstream message.
\<close>

lemma buffered_failure_keeps_upstream_message:
  "result
     (chat_completions (\<lambda>q. [])
        \<lparr>NIM_API_BASE = ''https://integrate.api.nvidia.com/v1'', NIM_API_KEY = Some ''key''\<rparr>
        (\<lambda>n. 0)
        (\<lambda>c. Inl (Thrown (JStr ''Request failed with status code 429'')
                   (Some \<lparr>status = 429,
                          data = Parsed (JObj [(''error'',
                                   JObj [(''message'', JStr ''rate limited'')])])\<rparr>)))
        (JObj [(''model'', JStr ''gpt-4''), (''messages'', JArr [])])) =
   \<lparr>statusCode = 429, headers = [],
    body_json = Some (JObj [(''error'',
      JObj [(''message'', JStr ''rate limited''), (''type'', JStr ''nvidia_api_error''),
            (''code'', JNum 429)])]),
    written = [], ended = True\<rparr>"
proof -
  let ?cfg = "\<lparr>NIM_API_BASE = ''https://integrate.api.nvidia.com/v1'', NIM_API_KEY = Some ''key''\<rparr>"
  let ?e = "Thrown (JStr ''Request failed with status code 429'')
              (Some \<lparr>status = 429,
                     data = Parsed (JObj [(''error'', JObj [(''message'', JStr ''rate limited'')])])\<rparr>)"
  let ?body = "JObj [(''model'', JStr ''gpt-4''), (''messages'', JArr [])]"
  have key: "truthy (env_value (NIM_API_KEY ?cfg))"
    by (simp add: env_value_def)
  have fields: "destructure ?body = Inr (JStr ''gpt-4'', JArr [], JUndefined, JUndefined, JUndefined)"
    by (simp add: destructure_def opt_member_def)
  have nim: "nimModel (\<lambda>q. []) (JStr ''gpt-4'') = Inr (JStr ''meta/llama-3.1-70b-instruct'')"
    by (rule nimModel_table_key) (simp add: MODEL_MAPPING_def)
  have failure: "(\<lambda>c. Inl ?e)
       (axios_call ?cfg (nimRequest (JStr ''meta/llama-3.1-70b-instruct'') (JArr [])
          JUndefined JUndefined JUndefined) JUndefined) = Inl ?e \<or>
     (\<exists>response. (\<lambda>c. Inl ?e)
       (axios_call ?cfg (nimRequest (JStr ''meta/llama-3.1-70b-instruct'') (JArr [])
          JUndefined JUndefined JUndefined) JUndefined) = Inr response \<and>
        \<not> truthy JUndefined \<and> openaiResponse ((\<lambda>n. 0) 0) ((\<lambda>n. 0) 1) (JStr ''gpt-4'') response = Inl ?e)"
    by simp
  from catch_block_reply [OF key fields nim failure]
  show ?thesis by (simp add: opt_member_def Let_def)
qed

text \<open>
  C4, at the same upstream answer to a request with \<^verbatim>\<open>"stream": true\<close>: the handler
  asks axios for \<^verbatim>\<open>responseType: 'stream'\<close>, so \<^verbatim>\<open>error.response.data\<close> is the
  unparsed body stream, \<^verbatim>\<open>error.response?.data?.error?.message\<close> is
  \<^verbatim>\<open>undefined\<close>, and the caller gets the description of the failure in place of the
  message of the structured upstream body.
\<close>

theorem streamed_failure_drops_upstream_message:
  \<open>result
     (chat_completions nts \<lparr>NIM_API_BASE = base, NIM_API_KEY = Some ''key''\<rparr> clock
        (\<lambda>c. Inl (Thrown (JStr ''Request failed with status code 429'')
                   (Some \<lparr>status = 429,
                          data = Stream [Data ''{"error":{"message":"rate limited"}}'', End]\<rparr>)))
        (JObj [(''model'', JStr ''gpt-4''), (''messages'', JArr []), (''stream'', JBool True)])) =
   \<lparr>statusCode = 429, headers = [],
    body_json = Some (JObj [(''error'',
      JObj [(''message'', JStr ''Request failed with status code 429''),
            (''type'', JStr ''nvidia_api_error''), (''code'', JNum 429)])]),
    written = [], ended = True\<rparr>\<close>
proof -
  let ?cfg = \<open>\<lparr>NIM_API_BASE = base, NIM_API_KEY = Some ''key''\<rparr>\<close>
  let ?e = \<open>Thrown (JStr ''Request failed with status code 429'')
              (Some \<lparr>status = 429,
                     data = Stream [Data ''{"error":{"message":"rate limited"}}'', End]\<rparr>)\<close>
  let ?body = \<open>JObj [(''model'', JStr ''gpt-4''), (''messages'', JArr []), (''stream'', JBool True)]\<close>
  have key: \<open>truthy (env_value (NIM_API_KEY ?cfg))\<close>
    by (simp add: env_value_def)
  have fields: \<open>destructure ?body = Inr (JStr ''gpt-4'', JArr [], JUndefined, JUndefined, JBool True)\<close>
    by (simp add: destructure_def opt_member_def)
  have nim: \<open>nimModel nts (JStr ''gpt-4'') = Inr (JStr ''meta/llama-3.1-70b-instruct'')\<close>
    by (rule nimModel_table_key) (simp add: MODEL_MAPPING_def)
  have \<open>try_block nts ?cfg clock (\<lambda>c. Inl ?e) ?body new_res =
      ([axios_call ?cfg (nimRequest (JStr ''meta/llama-3.1-70b-instruct'') (JArr [])
          JUndefined JUndefined (JBool True)) (JBool True)], new_res, Some ?e)\<close>
    by (rule try_block_rejected [OF fields nim]) simp
  then have \<open>result (chat_completions nts ?cfg clock (\<lambda>c. Inl ?e) ?body) = catch_block ?e new_res\<close>
    using key by (simp add: chat_completions_result)
  then show ?thesis
    by (simp add: catch_block_new_res errorMessage_of_cases statusCode_of_def Let_def)
qed

section \<open>The handler: a buffered success\<close>

lemma get_member_opt:
  "v \<noteq> JUndefined \<Longrightarrow> v \<noteq> JNull \<Longrightarrow> get_member v n = Inr (opt_member v n)"
  by (cases v) (simp_all add: opt_member_def)

lemma transform_choice_ok:
  assumes "c \<noteq> JUndefined" "c \<noteq> JNull"
    and "opt_member c ''message'' \<noteq> JUndefined" "opt_member c ''message'' \<noteq> JNull"
  shows "transform_choice c =
           Inr (JObj [(''index'', opt_member c ''index''),
                      (''message'',
                       JObj [(''role'', opt_member (opt_member c ''message'') ''role''),
                             (''content'', opt_member (opt_member c ''message'') ''content'')]),
                      (''finish_reason'', opt_member c ''finish_reason'')])"
  using assms by (simp add: transform_choice_def get_member_opt)

lemma map_choices_ok:
  assumes "\<forall>c \<in> set cs. c \<noteq> JUndefined \<and> c \<noteq> JNull \<and>
             opt_member c ''message'' \<noteq> JUndefined \<and> opt_member c ''message'' \<noteq> JNull"
  shows "map_choices cs =
           Inr (map (\<lambda>c. JObj [(''index'', opt_member c ''index''),
                      (''message'',
                       JObj [(''role'', opt_member (opt_member c ''message'') ''role''),
                             (''content'', opt_member (opt_member c ''message'') ''content'')]),
                      (''finish_reason'', opt_member c ''finish_reason'')]) cs)"
  using assms by (induction cs) (simp_all add: transform_choice_ok)

lemma openaiResponse_ok:
  assumes "data response = Parsed d"
    and "opt_member d ''choices'' = JArr cs"
    and "map_choices cs = Inr out"
  shows "openaiResponse now_id now_created model response =
           Inr (JObj [(''id'', JStr (''chatcmpl-'' @ integer_string now_id)),
                      (''object'', JStr ''chat.completion''),
                      (''created'', JNum (of_int (now_created div 1000))),
                      (''model'', model),
                      (''choices'', JArr out),
                      (''usage'', or_js (opt_member d ''usage'') zero_usage)])"
proof -
  from assms(2) have "d \<noteq> JUndefined" "d \<noteq> JNull"
    by (auto simp add: opt_member_def)
  then have "get_member d ''choices'' = Inr (JArr cs)"
    using assms(2) by (simp add: get_member_opt)
  then show ?thesis
    using assms(1,3) by (simp add: openaiResponse_def data_value_def choices_map_def)
qed

text \<open>
  C5: when the request does not stream, the upstream call succeeds and the parsed body
  holds an array \<^verbatim>\<open>choices\<close> whose elements each have a \<^verbatim>\<open>message\<close>, the caller gets
  status 200 and a response whose \<^verbatim>\<open>model\<close> is the \<^verbatim>\<open>model\<close> of the request body (the
  caller's identifier, whatever the upstream one is), whose choices are as many as the
  upstream's and carry, position by position, the same \<^verbatim>\<open>index\<close>, \<^verbatim>\<open>message.role\<close>,
  \<^verbatim>\<open>message.content\<close> and \<^verbatim>\<open>finish_reason\<close>, and whose \<^verbatim>\<open>usage\<close> is the
  upstream's usage object when there is one and three zero counts when there is none.
\<close>

theorem non_streaming_success:
  assumes key: "truthy (env_value (NIM_API_KEY cfg))"
    and fields: "destructure body = Inr (model, messages, temperature, max_tokens, stream)"
    and nim: "nimModel nts model = Inr nim_model"
    and buffered: "\<not> truthy stream"
    and success:
      "axios_post (axios_call cfg (nimRequest nim_model messages temperature max_tokens stream) stream)
         = Inr response"
    and parsed: "data response = Parsed d"
    and choices: "opt_member d ''choices'' = JArr cs"
    and shaped: "\<forall>c \<in> set cs. c \<noteq> JUndefined \<and> c \<noteq> JNull \<and>
                   opt_member c ''message'' \<noteq> JUndefined \<and> opt_member c ''message'' \<noteq> JNull"
  shows
    "\<exists>payload out.
       result (chat_completions nts cfg clock axios_post body) =
         \<lparr>statusCode = 200, headers = [], body_json = Some payload, written = [], ended = True\<rparr> \<and>
       opt_member payload ''model'' = opt_member body ''model'' \<and>
       opt_member payload ''choices'' = JArr out \<and>
       length out = length cs \<and>
       (\<forall>i < length cs.
          opt_member (out ! i) ''index'' = opt_member (cs ! i) ''index'' \<and>
          opt_member (opt_member (out ! i) ''message'') ''role'' =
            opt_member (opt_member (cs ! i) ''message'') ''role'' \<and>
          opt_member (opt_member (out ! i) ''message'') ''content'' =
            opt_member (opt_member (cs ! i) ''message'') ''content'' \<and>
          opt_member (out ! i) ''finish_reason'' = opt_member (cs ! i) ''finish_reason'') \<and>
       (opt_member d ''usage'' = JUndefined \<longrightarrow>
          opt_member payload ''usage'' =
            JObj [(''prompt_tokens'', JNum 0), (''completion_tokens'', JNum 0),
                  (''total_tokens'', JNum 0)]) \<and>
       (\<forall>counts. opt_member d ''usage'' = JObj counts \<longrightarrow>
          opt_member payload ''usage'' = JObj counts)"
proof -
  let ?reshape = "\<lambda>c. JObj [(''index'', opt_member c ''index''),
                      (''message'',
                       JObj [(''role'', opt_member (opt_member c ''message'') ''role''),
                             (''content'', opt_member (opt_member c ''message'') ''content'')]),
                      (''finish_reason'', opt_member c ''finish_reason'')]"
  let ?payload = "JObj [(''id'', JStr (''chatcmpl-'' @ integer_string (clock 0))),
                      (''object'', JStr ''chat.completion''),
                      (''created'', JNum (of_int (clock 1 div 1000))),
                      (''model'', model),
                      (''choices'', JArr (map ?reshape cs)),
                      (''usage'', or_js (opt_member d ''usage'') zero_usage)]"
  have "openaiResponse (clock 0) (clock 1) model response = Inr ?payload"
    by (rule openaiResponse_ok [OF parsed choices map_choices_ok [OF shaped]])
  then have "try_block nts cfg clock axios_post body new_res =
      ([axios_call cfg (nimRequest nim_model messages temperature max_tokens stream) stream],
       res_json ?payload new_res, None)"
    by (simp add: try_block_buffered [where axios_post = axios_post, OF fields nim success buffered])
  then have reply: "result (chat_completions nts cfg clock axios_post body) =
      \<lparr>statusCode = 200, headers = [], body_json = Some ?payload, written = [], ended = True\<rparr>"
    using key by (simp add: chat_completions_result res_json_def new_res_def)
  have model: "opt_member ?payload ''model'' = opt_member body ''model''"
    using destructure_Inr [OF fields] by (simp add: opt_member_def)
  have out: "opt_member ?payload ''choices'' = JArr (map ?reshape cs)"
    by (simp add: opt_member_def)
  have each: "\<forall>i < length cs.
          opt_member (map ?reshape cs ! i) ''index'' = opt_member (cs ! i) ''index'' \<and>
          opt_member (opt_member (map ?reshape cs ! i) ''message'') ''role'' =
            opt_member (opt_member (cs ! i) ''message'') ''role'' \<and>
          opt_member (opt_member (map ?reshape cs ! i) ''message'') ''content'' =
            opt_member (opt_member (cs ! i) ''message'') ''content'' \<and>
          opt_member (map ?reshape cs ! i) ''finish_reason'' = opt_member (cs ! i) ''finish_reason''"
    by (simp add: opt_member_def)
  have absent: "opt_member d ''usage'' = JUndefined \<longrightarrow>
          opt_member ?payload ''usage'' =
            JObj [(''prompt_tokens'', JNum 0), (''completion_tokens'', JNum 0),
                  (''total_tokens'', JNum 0)]"
    by (simp add: opt_member_def or_js_def zero_usage_def)
  have present: "\<forall>counts. opt_member d ''usage'' = JObj counts \<longrightarrow>
          opt_member ?payload ''usage'' = JObj counts"
    by (simp add: opt_member_def or_js_def)
  from reply model out each absent present show ?thesis
    by (intro exI [of _ ?payload] exI [of _ "map ?reshape cs"] conjI) simp_all
qed


theorem non_streaming_success_witness:
  "\<exists>payload out.
     result
       (chat_completions (\<lambda>q. [])
          \<lparr>NIM_API_BASE = ''https://integrate.api.nvidia.com/v1'', NIM_API_KEY = Some ''key''\<rparr>
          (\<lambda>n. 1700000000123)
          (\<lambda>c. Inr \<lparr>status = 200,
                     data = Parsed (JObj [(''choices'',
                       JArr [JObj [(''index'', JNum 0),
                                   (''message'', JObj [(''role'', JStr ''assistant''),
                                                       (''content'', JStr ''hi'')]),
                                   (''finish_reason'', JStr ''stop'')]])])\<rparr>)
          (JObj [(''model'', JStr ''gpt-4''), (''messages'', JArr []), (''stream'', JBool False)])) =
       \<lparr>statusCode = 200, headers = [], body_json = Some payload, written = [], ended = True\<rparr> \<and>
     opt_member payload ''model'' = JStr ''gpt-4'' \<and>
     opt_member payload ''choices'' = JArr out \<and>
     length out = 1 \<and>
     opt_member (out ! 0) ''index'' = JNum 0 \<and>
     opt_member (opt_member (out ! 0) ''message'') ''role'' = JStr ''assistant'' \<and>
     opt_member (opt_member (out ! 0) ''message'') ''content'' = JStr ''hi'' \<and>
     opt_member (out ! 0) ''finish_reason'' = JStr ''stop'' \<and>
     opt_member payload ''usage'' =
       JObj [(''prompt_tokens'', JNum 0), (''completion_tokens'', JNum 0),
             (''total_tokens'', JNum 0)]"
proof -
  let ?cfg = "\<lparr>NIM_API_BASE = ''https://integrate.api.nvidia.com/v1'', NIM_API_KEY = Some ''key''\<rparr>"
  let ?choice = "JObj [(''index'', JNum 0),
                       (''message'', JObj [(''role'', JStr ''assistant''), (''content'', JStr ''hi'')]),
                       (''finish_reason'', JStr ''stop'')]"
  let ?d = "JObj [(''choices'', JArr [?choice])]"
  let ?response = "\<lparr>status = 200, data = Parsed ?d\<rparr>"
  let ?body = "JObj [(''model'', JStr ''gpt-4''), (''messages'', JArr []), (''stream'', JBool False)]"
  have key: "truthy (env_value (NIM_API_KEY ?cfg))"
    by (simp add: env_value_def)
  have fields: "destructure ?body = Inr (JStr ''gpt-4'', JArr [], JUndefined, JUndefined, JBool False)"
    by (simp add: destructure_def opt_member_def)
  have nim: "nimModel (\<lambda>q. []) (JStr ''gpt-4'') = Inr (JStr ''meta/llama-3.1-70b-instruct'')"
    by (rule nimModel_table_key) (simp add: MODEL_MAPPING_def)
  have buffered: "\<not> truthy (JBool False)"
    by simp
  have success: "(\<lambda>c. Inr ?response)
      (axios_call ?cfg (nimRequest (JStr ''meta/llama-3.1-70b-instruct'') (JArr [])
         JUndefined JUndefined (JBool False)) (JBool False)) = Inr ?response"
    by simp
  have parsed: "data ?response = Parsed ?d"
    by simp
  have choices: "opt_member ?d ''choices'' = JArr [?choice]"
    by (simp add: opt_member_def)
  have shaped: "\<forall>c \<in> set [?choice]. c \<noteq> JUndefined \<and> c \<noteq> JNull \<and>
      opt_member c ''message'' \<noteq> JUndefined \<and> opt_member c ''message'' \<noteq> JNull"
    by (simp add: opt_member_def)
  have absent: "opt_member ?d ''usage'' = JUndefined"
    by (simp add: opt_member_def)
  from non_streaming_success [where axios_post = "\<lambda>c. Inr ?response" and clock = "\<lambda>n. 1700000000123",
      OF key fields nim buffered success parsed choices shaped]
  obtain payload out where
    "result (chat_completions (\<lambda>q. []) ?cfg (\<lambda>n. 1700000000123) (\<lambda>c. Inr ?response) ?body) =
       \<lparr>statusCode = 200, headers = [], body_json = Some payload, written = [], ended = True\<rparr>"
    "opt_member payload ''model'' = opt_member ?body ''model''"
    "opt_member payload ''choices'' = JArr out"
    "length out = length [?choice]"
    "\<forall>i < length [?choice].
          opt_member (out ! i) ''index'' = opt_member ([?choice] ! i) ''index'' \<and>
          opt_member (opt_member (out ! i) ''message'') ''role'' =
            opt_member (opt_member ([?choice] ! i) ''message'') ''role'' \<and>
          opt_member (opt_member (out ! i) ''message'') ''content'' =
            opt_member (opt_member ([?choice] ! i) ''message'') ''content'' \<and>
          opt_member (out ! i) ''finish_reason'' = opt_member ([?choice] ! i) ''finish_reason''"
    "opt_member ?d ''usage'' = JUndefined \<longrightarrow>
          opt_member payload ''usage'' =
            JObj [(''prompt_tokens'', JNum 0), (''completion_tokens'', JNum 0),
                  (''total_tokens'', JNum 0)]"
    by blast
  then show ?thesis
    using absent
    by (intro exI [of _ payload] exI [of _ out]) (simp add: opt_member_def)
qed

text \<open>Every error the reshaping throws is a TypeError: it carries no response.\<close>

lemma get_member_Inl: "get_member v n = Inl e \<Longrightarrow> error_response e = None"
  by (cases v) (auto simp add: TypeError_def)

lemma transform_choice_Inl: "transform_choice c = Inl e \<Longrightarrow> error_response e = None"
  by (auto simp add: transform_choice_def split: sum.splits dest: get_member_Inl)

lemma map_choices_Inl: "map_choices cs = Inl e \<Longrightarrow> error_response e = None"
  by (induction cs) (auto split: sum.splits dest: transform_choice_Inl)

lemma choices_map_Inl: "choices_map choices = Inl e \<Longrightarrow> error_response e = None"
  by (cases choices) (auto simp add: choices_map_def TypeError_def dest: map_choices_Inl)

lemma openaiResponse_Inl:
  "openaiResponse now_id now_created model response = Inl e \<Longrightarrow> error_response e = None"
  by (auto simp add: openaiResponse_def split: sum.splits dest: get_member_Inl choices_map_Inl)

text \<open>
  A body that cannot be reshaped is answered with status 500 and the description of the
  TypeError.
\<close>

lemma malformed_body_is_500:
  assumes key: "truthy (env_value (NIM_API_KEY cfg))"
    and fields: "destructure body = Inr (model, messages, temperature, max_tokens, stream)"
    and nim: "nimModel nts model = Inr nim_model"
    and buffered: "\<not> truthy stream"
    and success:
      "axios_post (axios_call cfg (nimRequest nim_model messages temperature max_tokens stream) stream)
         = Inr response"
    and malformed: "openaiResponse (clock 0) (clock 1) model response = Inl e"
  shows "result (chat_completions nts cfg clock axios_post body) =
           \<lparr>statusCode = 500, headers = [],
            body_json = Some (JObj [(''error'',
              JObj [(''message'', error_message e), (''type'', JStr ''nvidia_api_error''),
                    (''code'', JNum 500)])]),
            written = [], ended = True\<rparr>"
proof -
  have "try_block nts cfg clock axios_post body new_res =
      ([axios_call cfg (nimRequest nim_model messages temperature max_tokens stream) stream],
       new_res, Some e)"
    using malformed
    by (simp add: try_block_buffered [where axios_post = axios_post, OF fields nim success buffered])
  then have "result (chat_completions nts cfg clock axios_post body) = catch_block e new_res"
    using key by (simp add: chat_completions_result)
  then show ?thesis
    using openaiResponse_Inl [OF malformed]
    by (simp add: catch_block_new_res errorMessage_of_def statusCode_of_def or_js_def)
qed

section \<open>The handler: streaming\<close>

lemma relay_append: "relay (xs @ ys) r = relay ys (relay xs r)"
  by (simp add: relay_def)

lemma relay_chunks:
  "\<not> ended r \<Longrightarrow> relay (map Data chunks) r = r\<lparr>written := written r @ chunks\<rparr>"
proof (induction chunks arbitrary: r)
  case Nil
  then show ?case by (simp add: relay_def)
next
  case (Cons chunk chunks)
  have "relay (map Data (chunk # chunks)) r = relay (map Data chunks) (res_write chunk r)"
    by (simp add: relay_def)
  also have "\<dots> = (res_write chunk r)\<lparr>written := written (res_write chunk r) @ chunks\<rparr>"
    using Cons.prems by (intro Cons.IH) (simp add: res_write_def)
  also have "\<dots> = r\<lparr>written := written r @ chunk # chunks\<rparr>"
    using Cons.prems by (simp add: res_write_def)
  finally show ?case .
qed

lemma relay_closed:
  "closing = [] \<or> closing = [End] \<or> (\<exists>err. closing = [Error err]) \<Longrightarrow>
   relay closing r = r\<lparr>ended := ended r \<or> closing \<noteq> []\<rparr>"
  by (auto simp add: relay_def res_end_def)

text \<open>Nothing is written once the response has ended.\<close>

lemma relay_ended: "ended r \<Longrightarrow> relay events r = r"
proof (induction events)
  case Nil
  then show ?case by (simp add: relay_def)
next
  case (Cons ev events)
  then have "on_event ev r = r"
    by (cases ev) (simp_all add: res_write_def res_end_def)
  with Cons show ?case by (simp add: relay_def)
qed

text \<open>
  Whatever the upstream stream emits, the chunks written are those that arrived before
  the first end or error, in their order.
\<close>

lemma relay_written:
  "\<not> ended r \<Longrightarrow>
   written (relay events r) =
     written r @
     concat (map (\<lambda>ev. case ev of Data chunk \<Rightarrow> [chunk] | _ \<Rightarrow> [])
               (takeWhile (\<lambda>ev. case ev of Data chunk \<Rightarrow> True | _ \<Rightarrow> False) events))"
proof (induction events arbitrary: r)
  case Nil
  then show ?case by (simp add: relay_def)
next
  case (Cons ev events)
  show ?case
  proof (cases ev)
    case (Data chunk)
    have "relay (ev # events) r = relay events (res_write chunk r)"
      by (simp add: relay_def Data)
    moreover have "\<not> ended (res_write chunk r)"
      using Cons.prems by (simp add: res_write_def)
    ultimately show ?thesis
      using Cons.IH [of "res_write chunk r"] Cons.prems by (simp add: Data res_write_def)
  next
    case End
    have "relay (ev # events) r = relay events (res_end r)"
      by (simp add: relay_def End)
    then show ?thesis
      by (simp add: relay_ended res_end_def End)
  next
    case (Error err)
    have "relay (ev # events) r = relay events (res_end r)"
      by (simp add: relay_def Error)
    then show ?thesis
      by (simp add: relay_ended res_end_def Error)
  qed
qed

text \<open>
  C6: when the request streams and the upstream call succeeds, the caller's response
  carries the three event-stream headers and exactly the chunks the upstream emitted, the
  same bytes in the same order, and nothing else: while the upstream stream is open the
  response is open; when the upstream stream ends the response is ended; when the upstream
  stream fails the response is ended too, with no error object and no further chunk.
\<close>

theorem streaming_passthrough:
  assumes key: "truthy (env_value (NIM_API_KEY cfg))"
    and fields: "destructure body = Inr (model, messages, temperature, max_tokens, stream)"
    and nim: "nimModel nts model = Inr nim_model"
    and streaming: "truthy stream"
    and success:
      "axios_post (axios_call cfg (nimRequest nim_model messages temperature max_tokens stream) stream)
         = Inr response"
    and events: "data response = Stream (map Data chunks @ closing)"
    and closing: "closing = [] \<or> closing = [End] \<or> (\<exists>err. closing = [Error err])"
  shows
    "result (chat_completions nts cfg clock axios_post body) =
       \<lparr>statusCode = 200,
        headers = [(''Content-Type'', ''text/event-stream''), (''Cache-Control'', ''no-cache''),
                   (''Connection'', ''keep-alive'')],
        body_json = None,
        written = chunks,
        ended = (closing \<noteq> [])\<rparr>"
proof -
  let ?r = "\<lparr>statusCode = 200,
        headers = [(''Content-Type'', ''text/event-stream''), (''Cache-Control'', ''no-cache''),
                   (''Connection'', ''keep-alive'')],
        body_json = None, written = [], ended = False\<rparr>"
  have "relay (map Data chunks @ closing) ?r = relay closing (?r\<lparr>written := written ?r @ chunks\<rparr>)"
    by (simp add: relay_append relay_chunks)
  also have "\<dots> = ?r\<lparr>written := chunks, ended := closing \<noteq> []\<rparr>"
    using closing by (simp add: relay_closed)
  finally have relayed: "relay (map Data chunks @ closing) ?r =
      ?r\<lparr>written := chunks, ended := closing \<noteq> []\<rparr>" .
  have "stream_branch response new_res = (relay (map Data chunks @ closing) ?r, None)"
    using events by (simp add: stream_branch_def res_setHeader_def new_res_def)
  then have "try_block nts cfg clock axios_post body new_res =
      ([axios_call cfg (nimRequest nim_model messages temperature max_tokens stream) stream],
       relay (map Data chunks @ closing) ?r, None)"
    by (simp add: try_block_streamed [where axios_post = axios_post, OF fields nim success streaming])
  then show ?thesis
    using key by (simp add: chat_completions_result relayed)
qed

theorem streaming_passthrough_witness:
  "result
     (chat_completions (\<lambda>q. [])
        \<lparr>NIM_API_BASE = ''https://integrate.api.nvidia.com/v1'', NIM_API_KEY = Some ''key''\<rparr>
        (\<lambda>n. 0)
        (\<lambda>c. Inr \<lparr>status = 200,
                   data = Stream [Data (''data: a'' @ [CHR 0x0A, CHR 0x0A]),
                                  Data (''data: b'' @ [CHR 0x0A, CHR 0x0A]), End]\<rparr>)
        (JObj [(''model'', JStr ''gpt-4''), (''messages'', JArr []), (''stream'', JBool True)])) =
     \<lparr>statusCode = 200,
      headers = [(''Content-Type'', ''text/event-stream''), (''Cache-Control'', ''no-cache''),
                 (''Connection'', ''keep-alive'')],
      body_json = None,
      written = [''data: a'' @ [CHR 0x0A, CHR 0x0A], ''data: b'' @ [CHR 0x0A, CHR 0x0A]],
      ended = True\<rparr> \<and>
   result
     (chat_completions (\<lambda>q. [])
        \<lparr>NIM_API_BASE = ''https://integrate.api.nvidia.com/v1'', NIM_API_KEY = Some ''key''\<rparr>
        (\<lambda>n. 0)
        (\<lambda>c. Inr \<lparr>status = 200,
                   data = Stream [Data (''data: a'' @ [CHR 0x0A, CHR 0x0A]),
                                  Error ''socket hang up'']\<rparr>)
        (JObj [(''model'', JStr ''gpt-4''), (''messages'', JArr []), (''stream'', JBool True)])) =
     \<lparr>statusCode = 200,
      headers = [(''Content-Type'', ''text/event-stream''), (''Cache-Control'', ''no-cache''),
                 (''Connection'', ''keep-alive'')],
      body_json = None,
      written = [''data: a'' @ [CHR 0x0A, CHR 0x0A]],
      ended = True\<rparr>"
proof -
  let ?cfg = "\<lparr>NIM_API_BASE = ''https://integrate.api.nvidia.com/v1'', NIM_API_KEY = Some ''key''\<rparr>"
  let ?body = "JObj [(''model'', JStr ''gpt-4''), (''messages'', JArr []), (''stream'', JBool True)]"
  let ?a = "''data: a'' @ [CHR 0x0A, CHR 0x0A]"
  let ?b = "''data: b'' @ [CHR 0x0A, CHR 0x0A]"
  let ?completed = "\<lparr>status = 200, data = Stream [Data ?a, Data ?b, End]\<rparr>"
  let ?broken = "\<lparr>status = 200, data = Stream [Data ?a, Error ''socket hang up'']\<rparr>"
  have key: "truthy (env_value (NIM_API_KEY ?cfg))"
    by (simp add: env_value_def)
  have fields: "destructure ?body = Inr (JStr ''gpt-4'', JArr [], JUndefined, JUndefined, JBool True)"
    by (simp add: destructure_def opt_member_def)
  have nim: "nimModel (\<lambda>q. []) (JStr ''gpt-4'') = Inr (JStr ''meta/llama-3.1-70b-instruct'')"
    by (rule nimModel_table_key) (simp add: MODEL_MAPPING_def)
  have streaming: "truthy (JBool True)"
    by simp
  have completed: "(\<lambda>c. Inr ?completed)
      (axios_call ?cfg (nimRequest (JStr ''meta/llama-3.1-70b-instruct'') (JArr [])
         JUndefined JUndefined (JBool True)) (JBool True)) = Inr ?completed"
    by simp
  have broken: "(\<lambda>c. Inr ?broken)
      (axios_call ?cfg (nimRequest (JStr ''meta/llama-3.1-70b-instruct'') (JArr [])
         JUndefined JUndefined (JBool True)) (JBool True)) = Inr ?broken"
    by simp
  have events: "data ?completed = Stream (map Data [?a, ?b] @ [End])"
    by simp
  have events': "data ?broken = Stream (map Data [?a] @ [Error ''socket hang up''])"
    by simp
  have closing: "[End] = [] \<or> [End] = [End] \<or> (\<exists>err. [End] = [Error err])"
    by simp
  have closing': "[Error ''socket hang up''] = [] \<or> [Error ''socket hang up''] = [End] \<or>
      (\<exists>err. [Error ''socket hang up''] = [Error err])"
    by simp
  from streaming_passthrough [where axios_post = "\<lambda>c. Inr ?completed" and clock = "\<lambda>n. 0",
      OF key fields nim streaming completed events closing]
    streaming_passthrough [where axios_post = "\<lambda>c. Inr ?broken" and clock = "\<lambda>n. 0",
      OF key fields nim streaming broken events' closing']
  show ?thesis by simp
qed

section \<open>The synthesized identifier\<close>

lemma openaiResponse_id:
  "openaiResponse now_id now_created model response = Inr v \<Longrightarrow>
   opt_member v ''id'' = JStr (''chatcmpl-'' @ integer_string now_id)"
  by (auto simp add: openaiResponse_def opt_member_def split: sum.splits)

text \<open>
  Two responses built at the same millisecond, for the models \<^verbatim>\<open>gpt-4\<close> and
  \<^verbatim>\<open>gpt-4o\<close>: they differ, and they carry the same identifier.
\<close>

theorem identifier_collision:
  "openaiResponse 1700000000123 1700000000123 (JStr ''gpt-4'')
       \<lparr>status = 200, data = Parsed (JObj [(''choices'', JArr [])])\<rparr> =
     Inr (JObj [(''id'', JStr ''chatcmpl-1700000000123''),
                (''object'', JStr ''chat.completion''),
                (''created'', JNum 1700000000),
                (''model'', JStr ''gpt-4''),
                (''choices'', JArr []),
                (''usage'', JObj [(''prompt_tokens'', JNum 0), (''completion_tokens'', JNum 0),
                                  (''total_tokens'', JNum 0)])]) \<and>
   openaiResponse 1700000000123 1700000000123 (JStr ''gpt-4o'')
       \<lparr>status = 200, data = Parsed (JObj [(''choices'', JArr [])])\<rparr> =
     Inr (JObj [(''id'', JStr ''chatcmpl-1700000000123''),
                (''object'', JStr ''chat.completion''),
                (''created'', JNum 1700000000),
                (''model'', JStr ''gpt-4o''),
                (''choices'', JArr []),
                (''usage'', JObj [(''prompt_tokens'', JNum 0), (''completion_tokens'', JNum 0),
                                  (''total_tokens'', JNum 0)])]) \<and>
   openaiResponse 1700000000123 1700000000123 (JStr ''gpt-4'')
       \<lparr>status = 200, data = Parsed (JObj [(''choices'', JArr [])])\<rparr> \<noteq>
   openaiResponse 1700000000123 1700000000123 (JStr ''gpt-4o'')
       \<lparr>status = 200, data = Parsed (JObj [(''choices'', JArr [])])\<rparr>"
  by (simp add: openaiResponse_def data_value_def choices_map_def opt_member_def or_js_def
      zero_usage_def integer_string_def digits.simps digit_char_def)

text \<open>
  C7, as the code has it: the identifier is \<^verbatim>\<open>chatcmpl-\<close> followed by the clock's
  milliseconds, so two responses carry the same identifier exactly when their clock
  readings are the same; responses built at different milliseconds have distinct
  identifiers.
\<close>

theorem identifier_per_millisecond:
  assumes "openaiResponse now_id now_created model response = Inr v"
    and "openaiResponse now_id' now_created' model' response' = Inr v'"
  shows "(opt_member v ''id'' = opt_member v' ''id'') = (now_id = now_id')"
  using assms integer_string_inj [of now_id now_id']
  by (auto simp add: openaiResponse_id)

theorem identifier_per_millisecond_witness:
  "openaiResponse 1700000000123 1700000000123 (JStr ''gpt-4'')
       \<lparr>status = 200, data = Parsed (JObj [(''choices'', JArr [])])\<rparr> =
     Inr (JObj [(''id'', JStr ''chatcmpl-1700000000123''),
                (''object'', JStr ''chat.completion''),
                (''created'', JNum 1700000000),
                (''model'', JStr ''gpt-4''),
                (''choices'', JArr []),
                (''usage'', JObj [(''prompt_tokens'', JNum 0), (''completion_tokens'', JNum 0),
                                  (''total_tokens'', JNum 0)])]) \<and>
   openaiResponse 1700000000124 1700000000124 (JStr ''gpt-4'')
       \<lparr>status = 200, data = Parsed (JObj [(''choices'', JArr [])])\<rparr> =
     Inr (JObj [(''id'', JStr ''chatcmpl-1700000000124''),
                (''object'', JStr ''chat.completion''),
                (''created'', JNum 1700000000),
                (''model'', JStr ''gpt-4''),
                (''choices'', JArr []),
                (''usage'', JObj [(''prompt_tokens'', JNum 0), (''completion_tokens'', JNum 0),
                                  (''total_tokens'', JNum 0)])]) \<and>
   opt_member (JObj [(''id'', JStr ''chatcmpl-1700000000123''),
                (''object'', JStr ''chat.completion''),
                (''created'', JNum 1700000000),
                (''model'', JStr ''gpt-4''),
                (''choices'', JArr []),
                (''usage'', JObj [(''prompt_tokens'', JNum 0), (''completion_tokens'', JNum 0),
                                  (''total_tokens'', JNum 0)])]) ''id'' \<noteq>
   opt_member (JObj [(''id'', JStr ''chatcmpl-1700000000124''),
                (''object'', JStr ''chat.completion''),
                (''created'', JNum 1700000000),
                (''model'', JStr ''gpt-4''),
                (''choices'', JArr []),
                (''usage'', JObj [(''prompt_tokens'', JNum 0), (''completion_tokens'', JNum 0),
                                  (''total_tokens'', JNum 0)])]) ''id''"
proof -
  let ?response = "\<lparr>status = 200, data = Parsed (JObj [(''choices'', JArr [])])\<rparr>"
  have first: "openaiResponse 1700000000123 1700000000123 (JStr ''gpt-4'') ?response =
     Inr (JObj [(''id'', JStr ''chatcmpl-1700000000123''),
                (''object'', JStr ''chat.completion''),
                (''created'', JNum 1700000000),
                (''model'', JStr ''gpt-4''),
                (''choices'', JArr []),
                (''usage'', JObj [(''prompt_tokens'', JNum 0), (''completion_tokens'', JNum 0),
                                  (''total_tokens'', JNum 0)])])"
    by (simp add: openaiResponse_def data_value_def choices_map_def opt_member_def or_js_def
        zero_usage_def integer_string_def digits.simps digit_char_def)
  have second: "openaiResponse 1700000000124 1700000000124 (JStr ''gpt-4'') ?response =
     Inr (JObj [(''id'', JStr ''chatcmpl-1700000000124''),
                (''object'', JStr ''chat.completion''),
                (''created'', JNum 1700000000),
                (''model'', JStr ''gpt-4''),
                (''choices'', JArr []),
                (''usage'', JObj [(''prompt_tokens'', JNum 0), (''completion_tokens'', JNum 0),
                                  (''total_tokens'', JNum 0)])])"
    by (simp add: openaiResponse_def data_value_def choices_map_def opt_member_def or_js_def
        zero_usage_def integer_string_def digits.simps digit_char_def)
  from identifier_per_millisecond [OF first second] first second
  show ?thesis by simp
qed

section \<open>Requests no route matches\<close>

text \<open>Some paths \<^verbatim>\<open>decodeURIComponent\<close> accepts, and some it refuses.\<close>

lemma uri_decodes_examples:
  "uri_decodes ''/nonexistent''"
  "uri_decodes ''/a%20b''"
  "uri_decodes ''/%E2%82%AC''"
  "uri_decodes ''/%F0%9F%98%80''"
  "\<not> uri_decodes ''/%zz''"
  "\<not> uri_decodes ''/%''"
  "\<not> uri_decodes ''/%E2%82''"
  "\<not> uri_decodes ''/%C0%80''"
  "\<not> uri_decodes ''/%ED%A0%80''"
  "\<not> uri_decodes ''/%FF''"
  by (simp_all add: hex_value_def leading_ones_def continuation_byte_def
      numeral_2_eq_2 numeral_3_eq_3)

text \<open>
  The request \<^verbatim>\<open>OPTIONS /nonexistent\<close>: none of the four routes matches it, and the
  answer is the 204 of \<^verbatim>\<open>cors()\<close>, not a 404.
\<close>

theorem unmatched_request_preflight:
  "\<not> route_matches Get ''/health''
       \<lparr>req_method = OPTIONS, req_path = ''/nonexistent'', req_body = JObj []\<rparr> \<and>
   \<not> route_matches Get ''/''
       \<lparr>req_method = OPTIONS, req_path = ''/nonexistent'', req_body = JObj []\<rparr> \<and>
   \<not> route_matches Get ''/v1/models''
       \<lparr>req_method = OPTIONS, req_path = ''/nonexistent'', req_body = JObj []\<rparr> \<and>
   \<not> route_matches Post ''/v1/chat/completions''
       \<lparr>req_method = OPTIONS, req_path = ''/nonexistent'', req_body = JObj []\<rparr> \<and>
   app (integer_string \<circ> floor)
     \<lparr>NIM_API_BASE = ''https://integrate.api.nvidia.com/v1'', NIM_API_KEY = Some ''key''\<rparr>
     int (Inl \<circ> TypeError \<circ> post_url)
     \<lparr>in_method = OPTIONS, in_path = ''/nonexistent'', in_body = Inr (JObj [])\<rparr> =
   \<lparr>result = \<lparr>statusCode = 204, headers = [], body_json = None, written = [], ended = True\<rparr>,
    upstream_calls = []\<rparr>"
  by (simp add: route_matches_def app_def cors_preflight_def new_res_def)

text \<open>
  Two more requests none of the four routes matches that are not answered with 404: a path
  that cannot be decoded, and a body \<^verbatim>\<open>express.json()\<close> refuses.
\<close>

lemma undecodable_path_is_400:
  "app nts cfg clock axios_post
     \<lparr>in_method = GET, in_path = ''/%zz'', in_body = Inr (JObj [])\<rparr> =
   \<lparr>result = \<lparr>statusCode = 400, headers = [], body_json = None, written = [], ended = True\<rparr>,
    upstream_calls = []\<rparr>"
  by (simp add: app_def routes_def route_matches_def path_matches_def lower_char_def
      express_error_def new_res_def hex_value_def)

lemma refused_body_is_not_routed:
  "in_method inc \<noteq> OPTIONS \<Longrightarrow> in_body inc = Inl code \<Longrightarrow>
   app nts cfg clock axios_post inc =
     \<lparr>result = \<lparr>statusCode = code, headers = [], body_json = None, written = [], ended = True\<rparr>,
      upstream_calls = []\<rparr>"
  by (simp add: app_def express_error_def new_res_def)

text \<open>
  C8, as the code has it: a request that is not an OPTIONS request, whose body
  \<^verbatim>\<open>express.json()\<close> accepts, whose path can be decoded and that none of the four
  routes for \<^verbatim>\<open>/health\<close>, \<^verbatim>\<open>/\<close>, \<^verbatim>\<open>/v1/models\<close> and
  \<^verbatim>\<open>/v1/chat/completions\<close> matches is answered with status 404 and the error object of
  type \<^verbatim>\<open>not_found\<close>, whose message is the requested path between \<^verbatim>\<open>Endpoint\<close> and
  the rest of the sentence; no upstream call is made.
\<close>

theorem unknown_route_not_found:
  assumes "in_method inc \<noteq> OPTIONS"
    and "in_body inc = Inr body"
    and "uri_decodes (in_path inc)"
    and "\<not> route_matches Get ''/health''
           \<lparr>req_method = in_method inc, req_path = in_path inc, req_body = body\<rparr>"
    and "\<not> route_matches Get ''/''
           \<lparr>req_method = in_method inc, req_path = in_path inc, req_body = body\<rparr>"
    and "\<not> route_matches Get ''/v1/models''
           \<lparr>req_method = in_method inc, req_path = in_path inc, req_body = body\<rparr>"
    and "\<not> route_matches Post ''/v1/chat/completions''
           \<lparr>req_method = in_method inc, req_path = in_path inc, req_body = body\<rparr>"
  shows "app nts cfg clock axios_post inc =
           \<lparr>result =
              \<lparr>statusCode = 404, headers = [],
               body_json =
                 Some (JObj [(''error'',
                   JObj [(''message'',
                          JStr (''Endpoint '' @ in_path inc @ '' n'' @ [CHR 0xE3] @ ''o encontrado'')),
                         (''type'', JStr ''not_found'')])]),
               written = [], ended = True\<rparr>,
            upstream_calls = []\<rparr>"
  using assms
  by (simp add: app_def routes_def not_found_def res_json_def res_status_def new_res_def)

theorem unknown_route_not_found_witness:
  "app (\<lambda>q. [])
     \<lparr>NIM_API_BASE = ''https://integrate.api.nvidia.com/v1'', NIM_API_KEY = Some ''key''\<rparr>
     (\<lambda>n. 0) (\<lambda>c. Inr \<lparr>status = 200, data = Parsed (JObj [])\<rparr>)
     \<lparr>in_method = GET, in_path = ''/nonexistent'', in_body = Inr (JObj [])\<rparr> =
           \<lparr>result =
              \<lparr>statusCode = 404, headers = [],
               body_json =
                 Some (JObj [(''error'',
                   JObj [(''message'',
                          JStr (''Endpoint /nonexistent n'' @ [CHR 0xE3] @ ''o encontrado'')),
                         (''type'', JStr ''not_found'')])]),
               written = [], ended = True\<rparr>,
            upstream_calls = []\<rparr>"
proof -
  let ?inc = "\<lparr>in_method = GET, in_path = ''/nonexistent'', in_body = Inr (JObj [])\<rparr>"
  let ?req = "\<lparr>req_method = in_method ?inc, req_path = in_path ?inc, req_body = JObj []\<rparr>"
  have passed: "in_method ?inc \<noteq> OPTIONS"
    by simp
  have stored: "in_body ?inc = Inr (JObj [])"
    by simp
  have decodes: "uri_decodes (in_path ?inc)"
    by simp
  have 1: "\<not> route_matches Get ''/health'' ?req"
    and 2: "\<not> route_matches Get ''/'' ?req"
    and 3: "\<not> route_matches Get ''/v1/models'' ?req"
    and 4: "\<not> route_matches Post ''/v1/chat/completions'' ?req"
    by (simp_all add: route_matches_def path_matches_def lower_char_def)
  from unknown_route_not_found [OF passed stored decodes 1 2 3 4] show ?thesis by simp
qed

end
